theory Spec2Isabelle
  imports Complex_Main "HOL-Library.AList" "HOL-Library.Multiset" "HOL-Library.Log_Nat"
begin

section \<open>Python numbers\<close>

text \<open>
  An amount is a JSON number: a Python \<^verbatim>\<open>int\<close> (unbounded) or a \<^verbatim>\<open>float\<close> (an IEEE double).
  A float is given by the rational it denotes. Not modelled: NaN, the infinities and the
  sign of zero; where Python's float arithmetic leaves the double range and yields an
  infinity, the model goes on with the rounded value. Comparisons between numbers are exact
  in Python, for an \<^verbatim>\<open>int\<close> against a \<^verbatim>\<open>float\<close> as well, so they compare the values.
\<close>

datatype number = PyInt int | PyFloat rat

fun val :: "number \<Rightarrow> rat" where
  "val (PyInt i) = of_int i"
| "val (PyFloat x) = x"

text \<open>
  The exceptions numeric operations raise: OverflowError "int too large to convert to
  float", OverflowError "integer division result too large for a float", and
  ZeroDivisionError.
\<close>

datatype exn = Int_too_large_for_float | Division_result_too_large | Division_by_zero

definition then_do :: "exn + 'a \<Rightarrow> ('a \<Rightarrow> exn + 'b) \<Rightarrow> exn + 'b" where
  "then_do r f = (case r of Inl x \<Rightarrow> Inl x | Inr v \<Rightarrow> f v)"

text \<open>
  Rounding of a rational to the nearest double, ties to the even significand: 53 bits,
  least exponent -1022 (below it the spacing stays at \<open>2 ^ -1074\<close>).
\<close>

definition pow2 :: "int \<Rightarrow> rat" where
  "pow2 n = (if 0 \<le> n then 2 ^ nat n else 1 / 2 ^ nat (- n))"

definition round_half_even :: "rat \<Rightarrow> int" where
  "round_half_even r =
     (let f = \<lfloor>r\<rfloor>; d = r - of_int f
      in if d < 1 / 2 then f else if 1 / 2 < d then f + 1 else if even f then f else f + 1)"

definition floor_log2 :: "rat \<Rightarrow> int" where
  "floor_log2 x =
     (let d = bitlen (fst (quotient_of x)) - bitlen (snd (quotient_of x))
      in if pow2 d \<le> x then d else d - 1)"

definition round_double :: "rat \<Rightarrow> rat" where
  "round_double x =
     (if x = 0 then 0
      else let q = pow2 (max (floor_log2 \<bar>x\<bar>) (- 1022) - 52)
           in of_int (round_half_even (x / q)) * q)"

text \<open>The least magnitude that rounds to a value outside the double range.\<close>

definition overflow_bound :: rat where
  "overflow_bound = 2 ^ 1024 - 2 ^ 970"

definition to_float :: "number \<Rightarrow> exn + rat" where
  "to_float a =
     (case a of
        PyFloat x \<Rightarrow> Inr x
      | PyInt i \<Rightarrow>
          if overflow_bound \<le> \<bar>of_int i\<bar> then Inl Int_too_large_for_float
          else Inr (round_double (of_int i)))"

definition float_op :: "(rat \<Rightarrow> rat \<Rightarrow> rat) \<Rightarrow> number \<Rightarrow> number \<Rightarrow> exn + number" where
  "float_op f a b =
     then_do (to_float a) (\<lambda>x. then_do (to_float b) (\<lambda>y. Inr (PyFloat (round_double (f x y)))))"

text \<open>\<^verbatim>\<open>a + b\<close>, \<^verbatim>\<open>a * b\<close> and \<^verbatim>\<open>a / b\<close>: exact on two ints (true division apart), in floats otherwise.\<close>

fun py_add :: "number \<Rightarrow> number \<Rightarrow> exn + number" where
  "py_add (PyInt i) (PyInt j) = Inr (PyInt (i + j))"
| "py_add a b = float_op (+) a b"

fun py_mul :: "number \<Rightarrow> number \<Rightarrow> exn + number" where
  "py_mul (PyInt i) (PyInt j) = Inr (PyInt (i * j))"
| "py_mul a b = float_op (*) a b"

fun py_div :: "number \<Rightarrow> number \<Rightarrow> exn + number" where
  "py_div (PyInt i) (PyInt j) =
     (if j = 0 then Inl Division_by_zero
      else if overflow_bound \<le> \<bar>of_int i / of_int j\<bar> then Inl Division_result_too_large
      else Inr (PyFloat (round_double (of_int i / of_int j))))"
| "py_div a b =
     then_do (to_float a) (\<lambda>x. then_do (to_float b) (\<lambda>y.
       if y = 0 then Inl Division_by_zero else Inr (PyFloat (round_double (x / y)))))"

text \<open>\<^verbatim>\<open>min(a, b)\<close> keeps \<open>a\<close> unless \<open>b\<close> is smaller; \<^verbatim>\<open>round(a, 2)\<close> leaves an int alone.\<close>

definition py_min :: "number \<Rightarrow> number \<Rightarrow> number" where
  "py_min a b = (if val b < val a then b else a)"

definition py_round2 :: "number \<Rightarrow> number" where
  "py_round2 a =
     (case a of
        PyInt i \<Rightarrow> PyInt i
      | PyFloat x \<Rightarrow> PyFloat (round_double (of_int (round_half_even (x * 100)) / 100)))"

text \<open>\<^verbatim>\<open>sum(xs)\<close> adds from the left, starting from the int 0.\<close>

fun py_sum_from :: "number \<Rightarrow> number list \<Rightarrow> exn + number" where
  "py_sum_from acc [] = Inr acc"
| "py_sum_from acc (x # xs) = then_do (py_add acc x) (\<lambda>a. py_sum_from a xs)"

definition py_sum :: "number list \<Rightarrow> exn + number" where
  "py_sum xs = py_sum_from (PyInt 0) xs"

section \<open>Data model\<close>

text \<open>
  The three model classes of the repository (\<^verbatim>\<open>ProjectModel\<close>, \<^verbatim>\<open>UserModel\<close>,
  \<^verbatim>\<open>PledgeModel\<close>) keep their records as lists of dictionaries in JSON files. Each
  dictionary is a record here, with the keys the modelled functions read; the constant key
  \<^verbatim>\<open>status\<close> and the descriptive keys (description, category, creator, email, password)
  are left to the record's extension slot. Every record has all its keys with values of
  the right type, and strings are byte lists.

  A timestamp is the number of seconds of the naive local time the source formats with
  \<^verbatim>\<open>%Y-%m-%d %H:%M:%S\<close>, a calendar date is its day number. The deadline of a project is
  \<open>None\<close> when the stored string does not parse as a date.
\<close>

record project =
  proj_id :: string
  proj_name :: string
  goal_amount :: number
  current_amount :: number
  deadline :: "int option"

text \<open>\<^verbatim>\<open>get_all_projects\<close> adds two computed keys to every project it returns.\<close>

record project_view =
  proj :: project
  days_remaining :: int
  progress_percentage :: number

record reward_tier =
  tier_id :: string
  tier_project_id :: string
  tier_name :: string
  min_amount :: number
  remaining_quota :: int

record user =
  usr_id :: string
  username :: string
  full_name :: string

text \<open>
  The identifier of a pledge is the string \<^verbatim>\<open>pledge_\<close> followed by its sequence number
  padded to six digits; the record keeps the number.
\<close>

record pledge =
  pledge_id :: nat
  user_id :: string
  project_id :: string
  amount :: number
  reward_id :: "string option"
  pledge_date :: int

text \<open>
  The rejection reasons of \<^verbatim>\<open>create_pledge\<close>, in the order of its checks:
  "Project not found", "Project deadline has passed", "Selected reward tier not found",
  "Amount must be at least m for this reward" (\<open>m\<close> is the stored number as Python prints
  it, so the int 2500 and the float 2500.0 give different reasons) and "Selected reward
  tier is sold out"; and the reason of the exception handler, "System error: " followed by
  the message of the exception.
\<close>

datatype reason =
    Project_not_found
  | Deadline_passed
  | Reward_not_found
  | Amount_below_min number
  | Sold_out
  | System_error exn

record rejected_pledge =
  rej_user_id :: string
  rej_project_id :: string
  rej_amount :: number
  rej_reward_id :: "string option"
  rejection_date :: int
  rejection_reason :: reason

datatype data_file = ProjectsFile | RewardsFile | UsersFile | PledgesFile | RejectedFile

record store =
  projects_file :: "project list"
  rewards_file :: "reward_tier list"
  users_file :: "user list"
  pledges_file :: "pledge list"
  rejected_pledges_file :: "rejected_pledge list"

text \<open>
  What a call takes from outside the store: the clock (\<^verbatim>\<open>datetime.now()\<close>, in seconds),
  which files can be read, which files can be written, and which of the others fail while
  being written (after \<^verbatim>\<open>open(filename, 'w')\<close> has emptied them).
\<close>

record env =
  now :: int
  readable :: "data_file set"
  writable :: "data_file set"
  torn :: "data_file set"

datatype outcome = Success nat | Failure reason

section \<open>Persistence helpers\<close>

text \<open>
  \<^verbatim>\<open>_load_data\<close> returns the content of the file, and the empty list when the file is
  missing or reading it raises (the exception is printed and dropped). \<^verbatim>\<open>_save_data\<close>
  replaces the content of the file; when it raises, the exception is printed and the call
  returns normally. A write refused at \<^verbatim>\<open>open\<close> leaves the file as it was; a write that
  fails in \<^verbatim>\<open>json.dump\<close> leaves a file that no longer parses, which every later
  \<^verbatim>\<open>_load_data\<close> reads as the empty list. A missing or unparsable file is a file whose
  content is the empty list.
\<close>

definition load_data :: "bool \<Rightarrow> 'a list \<Rightarrow> 'a list" where
  "load_data ok content = (if ok then content else [])"

datatype write_result = Written | Refused | Torn

definition write_of :: "env \<Rightarrow> data_file \<Rightarrow> write_result" where
  "write_of e f = (if f \<in> writable e then Written else if f \<in> torn e then Torn else Refused)"

definition save_data :: "write_result \<Rightarrow> 'a list \<Rightarrow> 'a list \<Rightarrow> 'a list" where
  "save_data w data content = (case w of Written \<Rightarrow> data | Refused \<Rightarrow> content | Torn \<Rightarrow> [])"

section \<open>Project catalog\<close>

definition seconds_per_day :: int where
  "seconds_per_day = 86400"

definition today :: "env \<Rightarrow> int" where
  "today e = now e div seconds_per_day"

definition calculate_days_remaining :: "env \<Rightarrow> int option \<Rightarrow> int" where
  "calculate_days_remaining e d =
     (case d of None \<Rightarrow> 0 | Some day \<Rightarrow> max 0 (day - today e))"

definition calculate_progress_percentage :: "number \<Rightarrow> number \<Rightarrow> exn + number" where
  "calculate_progress_percentage cur goal =
     (if val goal \<le> 0 then Inr (PyInt 0)
      else then_do (py_div cur goal) (\<lambda>q.
           then_do (py_mul q (PyInt 100)) (\<lambda>p. Inr (py_min p (PyInt 100)))))"

text \<open>A loop over a list whose body may raise: the first exception ends it.\<close>

primrec try_map :: "('a \<Rightarrow> exn + 'b) \<Rightarrow> 'a list \<Rightarrow> exn + 'b list" where
  "try_map f [] = Inr []"
| "try_map f (x # xs) = then_do (f x) (\<lambda>y. then_do (try_map f xs) (\<lambda>ys. Inr (y # ys)))"

definition project_view_of :: "env \<Rightarrow> project \<Rightarrow> exn + project_view" where
  "project_view_of e p =
     then_do (calculate_progress_percentage (current_amount p) (goal_amount p)) (\<lambda>g.
       Inr \<lparr>proj = p, days_remaining = calculate_days_remaining e (deadline p),
            progress_percentage = g\<rparr>)"

definition get_all_projects :: "env \<Rightarrow> store \<Rightarrow> exn + project_view list" where
  "get_all_projects e s =
     try_map (project_view_of e) (load_data (ProjectsFile \<in> readable e) (projects_file s))"

definition get_project_by_id :: "env \<Rightarrow> store \<Rightarrow> string \<Rightarrow> exn + project_view option" where
  "get_project_by_id e s pid =
     then_do (get_all_projects e s) (\<lambda>projects. Inr (find (\<lambda>v. proj_id (proj v) = pid) projects))"

definition get_reward_tiers :: "env \<Rightarrow> store \<Rightarrow> string \<Rightarrow> reward_tier list" where
  "get_reward_tiers e s pid =
     sort_key (\<lambda>r. val (min_amount r))
       (filter (\<lambda>r. tier_project_id r = pid)
               (load_data (RewardsFile \<in> readable e) (rewards_file s)))"

text \<open>
  The two update hooks walk the loaded list, change the first record that matches, save and
  return \<^verbatim>\<open>True\<close>; with no match nothing is saved and they return \<^verbatim>\<open>False\<close>. The addition in
  \<^verbatim>\<open>update_project_amount\<close> may raise, before anything is saved.
\<close>

fun update_first :: "('a \<Rightarrow> bool) \<Rightarrow> ('a \<Rightarrow> 'a) \<Rightarrow> 'a list \<Rightarrow> 'a list option" where
  "update_first P f [] = None"
| "update_first P f (x # xs) =
     (if P x then Some (f x # xs)
      else (case update_first P f xs of None \<Rightarrow> None | Some ys \<Rightarrow> Some (x # ys)))"

definition update_project_amount ::
  "env \<Rightarrow> store \<Rightarrow> string \<Rightarrow> number \<Rightarrow> exn + bool \<times> store" where
  "update_project_amount e s pid additional_amount =
     (let projects = load_data (ProjectsFile \<in> readable e) (projects_file s)
      in case find (\<lambda>p. proj_id p = pid) projects of
           None \<Rightarrow> Inr (False, s)
         | Some project \<Rightarrow>
             then_do (py_add (current_amount project) additional_amount) (\<lambda>c.
               case update_first (\<lambda>p. proj_id p = pid) (\<lambda>p. p\<lparr>current_amount := c\<rparr>)
                      projects of
                 None \<Rightarrow> Inr (False, s)
               | Some ps \<Rightarrow>
                   Inr (True, s\<lparr>projects_file :=
                                 save_data (write_of e ProjectsFile) ps (projects_file s)\<rparr>)))"

definition update_reward_quota :: "env \<Rightarrow> store \<Rightarrow> string \<Rightarrow> int \<Rightarrow> bool \<times> store" where
  "update_reward_quota e s rid decrease_by =
     (case update_first (\<lambda>r. tier_id r = rid \<and> remaining_quota r > 0)
             (\<lambda>r. r\<lparr>remaining_quota := remaining_quota r - decrease_by\<rparr>)
             (load_data (RewardsFile \<in> readable e) (rewards_file s)) of
        None \<Rightarrow> (False, s)
      | Some rs \<Rightarrow>
          (True, s\<lparr>rewards_file :=
                     save_data (write_of e RewardsFile) rs (rewards_file s)\<rparr>))"

section \<open>User directory\<close>

definition get_user_by_id :: "env \<Rightarrow> store \<Rightarrow> string \<Rightarrow> user option" where
  "get_user_by_id e s uid =
     find (\<lambda>u. usr_id u = uid) (load_data (UsersFile \<in> readable e) (users_file s))"

section \<open>Pledge ledger\<close>

text \<open>
  The \<^verbatim>\<open>reward_id\<close> argument is \<^verbatim>\<open>None\<close>, the empty string or a tier identifier; the
  source tests it with \<^verbatim>\<open>if reward_id\<close>, and stores \<^verbatim>\<open>reward_id if reward_id else None\<close>.
\<close>

definition truthy :: "string option \<Rightarrow> bool" where
  "truthy r = (case r of None \<Rightarrow> False | Some x \<Rightarrow> x \<noteq> [])"

definition stored_reward_id :: "string option \<Rightarrow> string option" where
  "stored_reward_id r = (if truthy r then r else None)"

definition reject_pledge ::
  "env \<Rightarrow> store \<Rightarrow> string \<Rightarrow> string \<Rightarrow> number \<Rightarrow> string option \<Rightarrow> reason \<Rightarrow> outcome \<times> store" where
  "reject_pledge e s uid pid amt rid why =
     (let rejected = \<lparr>rej_user_id = uid, rej_project_id = pid, rej_amount = amt,
                      rej_reward_id = stored_reward_id rid,
                      rejection_date = now e, rejection_reason = why\<rparr>;
          rejected_pledges = load_data (RejectedFile \<in> readable e) (rejected_pledges_file s)
      in (Failure why,
          s\<lparr>rejected_pledges_file :=
              save_data (write_of e RejectedFile) (rejected_pledges @ [rejected])
                (rejected_pledges_file s)\<rparr>))"

text \<open>
  The body of the \<^verbatim>\<open>try\<close> block returns a result or raises; either way the store is as the
  writes made so far have left it.
\<close>

definition returned :: "outcome \<times> store \<Rightarrow> (exn + outcome) \<times> store" where
  "returned r = (Inr (fst r), snd r)"

text \<open>
  The part of the body after the last check: save the pledge, add the amount to the
  project, take one unit from the tier. When the addition raises, the pledge is already
  saved.
\<close>

definition new_pledge ::
  "env \<Rightarrow> store \<Rightarrow> string \<Rightarrow> string \<Rightarrow> number \<Rightarrow> string option \<Rightarrow> pledge" where
  "new_pledge e s uid pid amt rid =
     \<lparr>pledge_id = length (load_data (PledgesFile \<in> readable e) (pledges_file s)) + 1,
      user_id = uid, project_id = pid, amount = amt,
      reward_id = stored_reward_id rid, pledge_date = now e\<rparr>"

definition save_pledge ::
  "env \<Rightarrow> store \<Rightarrow> string \<Rightarrow> string \<Rightarrow> number \<Rightarrow> string option \<Rightarrow> store" where
  "save_pledge e s uid pid amt rid =
     s\<lparr>pledges_file :=
         save_data (write_of e PledgesFile)
           (load_data (PledgesFile \<in> readable e) (pledges_file s) @
              [new_pledge e s uid pid amt rid])
           (pledges_file s)\<rparr>"

definition accept_pledge ::
  "env \<Rightarrow> store \<Rightarrow> string \<Rightarrow> string \<Rightarrow> number \<Rightarrow> string option \<Rightarrow> (exn + outcome) \<times> store" where
  "accept_pledge e s uid pid amt rid =
     (let s1 = save_pledge e s uid pid amt rid
      in case update_project_amount e s1 pid amt of
           Inl x \<Rightarrow> (Inl x, s1)
         | Inr updated \<Rightarrow>
             (Inr (Success (pledge_id (new_pledge e s uid pid amt rid))),
              if truthy rid then snd (update_reward_quota e (snd updated) (the rid) 1)
              else snd updated))"

definition create_pledge_body ::
  "env \<Rightarrow> store \<Rightarrow> string \<Rightarrow> string \<Rightarrow> number \<Rightarrow> string option \<Rightarrow> (exn + outcome) \<times> store" where
  "create_pledge_body e s uid pid amt rid =
     (case get_project_by_id e s pid of
        Inl x \<Rightarrow> (Inl x, s)
      | Inr None \<Rightarrow> returned (reject_pledge e s uid pid amt rid Project_not_found)
      | Inr (Some project) \<Rightarrow>
          if days_remaining project \<le> 0
          then returned (reject_pledge e s uid pid amt rid Deadline_passed)
          else if truthy rid then
            (case find (\<lambda>r. tier_id r = the rid) (get_reward_tiers e s pid) of
               None \<Rightarrow> returned (reject_pledge e s uid pid amt rid Reward_not_found)
             | Some selected_reward \<Rightarrow>
                 if val amt < val (min_amount selected_reward)
                 then returned (reject_pledge e s uid pid amt rid
                        (Amount_below_min (min_amount selected_reward)))
                 else if remaining_quota selected_reward \<le> 0
                 then returned (reject_pledge e s uid pid amt rid Sold_out)
                 else accept_pledge e s uid pid amt rid)
          else accept_pledge e s uid pid amt rid)"

text \<open>
  \<^verbatim>\<open>create_pledge\<close>: the body, and the handler \<^verbatim>\<open>except Exception as e\<close>, which records a
  rejection with the reason "System error: ..." on the store as the body left it.
\<close>

definition create_pledge ::
  "env \<Rightarrow> store \<Rightarrow> string \<Rightarrow> string \<Rightarrow> number \<Rightarrow> string option \<Rightarrow> outcome \<times> store" where
  "create_pledge e s uid pid amt rid =
     (case create_pledge_body e s uid pid amt rid of
        (Inl x, s1) \<Rightarrow> reject_pledge e s1 uid pid amt rid (System_error x)
      | (Inr r, s1) \<Rightarrow> (r, s1))"

section \<open>Statistics\<close>

text \<open>
  \<^verbatim>\<open>(a - b).days\<close> of two datetimes is the floor of their difference in days. The clock has
  microseconds and the stored dates have none, which does not change the floor, so seconds
  are enough.
\<close>

definition timedelta_days :: "int \<Rightarrow> int \<Rightarrow> int" where
  "timedelta_days a b = (a - b) div seconds_per_day"

text \<open>
  A dictionary keeps its keys in the order of their first insertion: an association list
  whose update replaces in place or appends. A slice \<^verbatim>\<open>xs[:k]\<close> with a negative \<open>k\<close>
  drops the last \<open>-k\<close> elements.
\<close>

definition dict_get :: "('k \<times> 'v) list \<Rightarrow> 'k \<Rightarrow> 'v \<Rightarrow> 'v" where
  "dict_get d k dflt = (case map_of d k of None \<Rightarrow> dflt | Some v \<Rightarrow> v)"

definition py_prefix :: "int \<Rightarrow> 'a list \<Rightarrow> 'a list" where
  "py_prefix k xs =
     (if 0 \<le> k then take (nat k) xs else take (nat (int (length xs) + k)) xs)"

definition rejection_reasons :: "rejected_pledge list \<Rightarrow> (reason \<times> nat) list" where
  "rejection_reasons rs =
     foldl (\<lambda>d r. AList.update (rejection_reason r) (dict_get d (rejection_reason r) 0 + 1) d)
       [] rs"

record statistics =
  total_successful_pledges :: nat
  total_rejected_pledges :: nat
  total_pledge_attempts :: nat
  success_rate_percentage :: number
  total_pledged_amount :: number
  average_pledge_amount :: number
  recent_successful_pledges :: nat
  recent_rejected_pledges :: nat
  top_rejection_reasons :: "(reason \<times> nat) list"

text \<open>\<^verbatim>\<open>get_pledge_statistics\<close> has no handler: an exception of the arithmetic reaches the caller.\<close>

definition get_pledge_statistics :: "env \<Rightarrow> store \<Rightarrow> exn + statistics" where
  "get_pledge_statistics e s =
     (let successful_pledges = load_data (PledgesFile \<in> readable e) (pledges_file s);
          rejected_pledges = load_data (RejectedFile \<in> readable e) (rejected_pledges_file s);
          total_successful = length successful_pledges;
          total_rejected = length rejected_pledges;
          total_attempts = total_successful + total_rejected;
          current_date = now e
      in then_do
           (if total_attempts > 0
            then then_do (py_div (PyInt (int total_successful)) (PyInt (int total_attempts)))
                   (\<lambda>q. py_mul q (PyInt 100))
            else Inr (PyInt 0)) (\<lambda>success_rate.
         then_do (py_sum (map amount successful_pledges)) (\<lambda>total_amount.
         then_do
           (if total_successful > 0 then py_div total_amount (PyInt (int total_successful))
            else Inr (PyInt 0)) (\<lambda>average_pledge.
         Inr \<lparr>total_successful_pledges = total_successful,
              total_rejected_pledges = total_rejected,
              total_pledge_attempts = total_attempts,
              success_rate_percentage = py_round2 success_rate,
              total_pledged_amount = total_amount,
              average_pledge_amount = py_round2 average_pledge,
              recent_successful_pledges =
                length (filter (\<lambda>p. timedelta_days current_date (pledge_date p) \<le> 7)
                          successful_pledges),
              recent_rejected_pledges =
                length (filter (\<lambda>r. timedelta_days current_date (rejection_date r) \<le> 7)
                          rejected_pledges),
              top_rejection_reasons =
                py_prefix 5
                  (sort_key (\<lambda>x. - int (snd x)) (rejection_reasons rejected_pledges))\<rparr>))))"

section \<open>Top backers\<close>

record backer =
  backer_user_name :: string
  backer_username :: string
  total_pledged :: number
  pledge_count :: nat

text \<open>
  The grouping loop: \<^verbatim>\<open>user_totals[user_id] = user_totals.get(user_id, 0) + pledge['amount']\<close>
  for every pledge in turn; the addition may raise, and \<^verbatim>\<open>get_top_backers\<close> has no handler.
\<close>

fun user_totals_from ::
  "(string \<times> number) list \<Rightarrow> pledge list \<Rightarrow> exn + (string \<times> number) list" where
  "user_totals_from d [] = Inr d"
| "user_totals_from d (p # ps) =
     then_do (py_add (dict_get d (user_id p) (PyInt 0)) (amount p)) (\<lambda>t.
       user_totals_from (AList.update (user_id p) t d) ps)"

definition user_totals :: "pledge list \<Rightarrow> exn + (string \<times> number) list" where
  "user_totals ps = user_totals_from [] ps"

text \<open>
  \<^verbatim>\<open>sorted(..., reverse=True)\<close> is stable: entries with equal totals keep their order.
  Sorting by the negated total with the stable \<open>sort_key\<close> does the same.
\<close>

definition sorted_backers :: "(string \<times> number) list \<Rightarrow> (string \<times> number) list" where
  "sorted_backers totals = sort_key (\<lambda>x. - val (snd x)) totals"

definition backer_entry :: "env \<Rightarrow> store \<Rightarrow> pledge list \<Rightarrow> string \<times> number \<Rightarrow> backer option" where
  "backer_entry e s pledges x =
     (case get_user_by_id e s (fst x) of
        None \<Rightarrow> None
      | Some u \<Rightarrow>
          Some \<lparr>backer_user_name = full_name u,
                backer_username = username u,
                total_pledged = snd x,
                pledge_count = length (filter (\<lambda>p. user_id p = fst x) pledges)\<rparr>)"

definition get_top_backers :: "env \<Rightarrow> store \<Rightarrow> int \<Rightarrow> exn + backer list" where
  "get_top_backers e s limit =
     (let pledges = load_data (PledgesFile \<in> readable e) (pledges_file s)
      in then_do (user_totals pledges) (\<lambda>totals.
           Inr (List.map_filter (backer_entry e s pledges)
                  (py_prefix limit (sorted_backers totals)))))"

text \<open>
  Two notions of the specification, for comparison with the loop above: the pledges
  \<^verbatim>\<open>get_top_backers\<close> loads, and the amounts of the pledges of one user in the order of the
  pledge file, which "sums amount per user" adds up.
\<close>

abbreviation loaded_pledges :: "env \<Rightarrow> store \<Rightarrow> pledge list" where
  "loaded_pledges e s \<equiv> load_data (PledgesFile \<in> readable e) (pledges_file s)"

definition amounts_of :: "string \<Rightarrow> pledge list \<Rightarrow> number list" where
  "amounts_of u ps = map amount (filter (\<lambda>p. user_id p = u) ps)"

section \<open>Sequential execution\<close>

text \<open>
  One step of the store: a call of \<^verbatim>\<open>create_pledge\<close>, or a direct call of one of the two
  hooks of the catalog that returns, the quota hook with its default decrement. The other
  operations only read.
\<close>

definition quotas_nonneg :: "store \<Rightarrow> bool" where
  "quotas_nonneg s = list_all (\<lambda>r. 0 \<le> remaining_quota r) (rewards_file s)"

inductive op_step :: "store \<Rightarrow> store \<Rightarrow> bool" where
  pledge_step: "op_step s (snd (create_pledge e s uid pid amt rid))"
| quota_step: "op_step s (snd (update_reward_quota e s rid 1))"
| amount_step: "update_project_amount e s pid amt = Inr r \<Longrightarrow> op_step s (snd r)"

section \<open>Sample data\<close>

text \<open>
  The first project of the sample data with the tier of the spec's scenario (sold out) and
  a second tier, three users, and an environment in which every file can be read and
  written. Day 0 is today; the deadline is 45 days out. The amounts are floats, as the
  sample data and the controller have them.
\<close>

definition smart_home :: project where
  "smart_home = \<lparr>proj_id = ''10001001'', proj_name = ''Smart Home IoT System'',
     goal_amount = PyFloat 50000, current_amount = PyFloat 35750, deadline = Some 45\<rparr>"

definition early_bird :: reward_tier where
  "early_bird = \<lparr>tier_id = ''reward_1'', tier_project_id = ''10001001'',
     tier_name = ''Early Bird Special'', min_amount = PyFloat 2500, remaining_quota = 0\<rparr>"

definition standard_package :: reward_tier where
  "standard_package = \<lparr>tier_id = ''reward_2'', tier_project_id = ''10001001'',
     tier_name = ''Standard Package'', min_amount = PyFloat 5000, remaining_quota = 100\<rparr>"

definition john :: user where
  "john = \<lparr>usr_id = ''user_0002'', username = ''john_doe'', full_name = ''John Doe''\<rparr>"

definition jane :: user where
  "jane = \<lparr>usr_id = ''user_0003'', username = ''jane_smith'', full_name = ''Jane Smith''\<rparr>"

definition mike :: user where
  "mike = \<lparr>usr_id = ''user_0004'', username = ''mike_johnson'', full_name = ''Mike Johnson''\<rparr>"

definition seed_store :: store where
  "seed_store = \<lparr>projects_file = [smart_home],
     rewards_file = [early_bird, standard_package],
     users_file = [john, jane, mike], pledges_file = [], rejected_pledges_file = []\<rparr>"

definition healthy_env :: env where
  "healthy_env = \<lparr>now = 0, readable = UNIV, writable = UNIV, torn = {}\<rparr>"

definition simple_pledge :: "nat \<Rightarrow> string \<Rightarrow> number \<Rightarrow> int \<Rightarrow> pledge" where
  "simple_pledge n uid amt t =
     \<lparr>pledge_id = n, user_id = uid, project_id = ''10001001'', amount = amt,
      reward_id = None, pledge_date = t\<rparr>"

text \<open>Three backers with totals 500 (in two pledges), 1500 and 300.\<close>

definition backers_store :: store where
  "backers_store = seed_store\<lparr>pledges_file :=
     [simple_pledge 1 ''user_0002'' (PyFloat 200) 0, simple_pledge 2 ''user_0003'' (PyFloat 1500) 0,
      simple_pledge 3 ''user_0004'' (PyFloat 300) 0, simple_pledge 4 ''user_0002'' (PyFloat 300) 0]\<rparr>"

text \<open>An int beyond the range of a float.\<close>

definition huge :: int where
  "huge = 10 ^ 400"

section \<open>What each operation leaves alone\<close>

lemma then_do_Inr_iff: "then_do r f = Inr y \<longleftrightarrow> (\<exists>v. r = Inr v \<and> f v = Inr y)"
  by (cases r) (simp_all add: then_do_def)

lemma then_do_Inl_iff:
  "then_do r f = Inl x \<longleftrightarrow> r = Inl x \<or> (\<exists>v. r = Inr v \<and> f v = Inl x)"
  by (cases r) (simp_all add: then_do_def)

lemma update_project_amount_frame:
  assumes "update_project_amount e s pid a = Inr r"
  shows "rewards_file (snd r) = rewards_file s" "users_file (snd r) = users_file s"
    "pledges_file (snd r) = pledges_file s"
    "rejected_pledges_file (snd r) = rejected_pledges_file s"
  using assms
  by (auto simp: update_project_amount_def Let_def then_do_Inr_iff split: option.splits)

lemma update_reward_quota_frame:
  "projects_file (snd (update_reward_quota e s rid d)) = projects_file s"
  "users_file (snd (update_reward_quota e s rid d)) = users_file s"
  "pledges_file (snd (update_reward_quota e s rid d)) = pledges_file s"
  "rejected_pledges_file (snd (update_reward_quota e s rid d)) = rejected_pledges_file s"
  by (simp_all add: update_reward_quota_def split: option.split)

lemma reject_pledge_frame:
  "projects_file (snd (reject_pledge e s uid pid amt rid why)) = projects_file s"
  "rewards_file (snd (reject_pledge e s uid pid amt rid why)) = rewards_file s"
  "users_file (snd (reject_pledge e s uid pid amt rid why)) = users_file s"
  "pledges_file (snd (reject_pledge e s uid pid amt rid why)) = pledges_file s"
  by (simp_all add: reject_pledge_def Let_def)

lemma reject_pledge_fst: "fst (reject_pledge e s uid pid amt rid why) = Failure why"
  by (simp add: reject_pledge_def Let_def)

lemma reject_pledge_rejected:
  "rejected_pledges_file (snd (reject_pledge e s uid pid amt rid why)) =
     save_data (write_of e RejectedFile)
       (load_data (RejectedFile \<in> readable e) (rejected_pledges_file s) @
          [\<lparr>rej_user_id = uid, rej_project_id = pid, rej_amount = amt,
            rej_reward_id = stored_reward_id rid,
            rejection_date = now e, rejection_reason = why\<rparr>])
       (rejected_pledges_file s)"
  by (simp add: reject_pledge_def Let_def)

lemma save_pledge_frame:
  "projects_file (save_pledge e s uid pid amt rid) = projects_file s"
  "rewards_file (save_pledge e s uid pid amt rid) = rewards_file s"
  "users_file (save_pledge e s uid pid amt rid) = users_file s"
  "rejected_pledges_file (save_pledge e s uid pid amt rid) = rejected_pledges_file s"
  by (simp_all add: save_pledge_def)

lemma save_pledge_pledges:
  assumes "PledgesFile \<in> readable e" "PledgesFile \<in> writable e"
  shows "pledges_file (save_pledge e s uid pid amt rid) =
     pledges_file s @
       [\<lparr>pledge_id = length (pledges_file s) + 1, user_id = uid, project_id = pid,
         amount = amt, reward_id = stored_reward_id rid, pledge_date = now e\<rparr>]"
  using assms by (simp add: save_pledge_def new_pledge_def load_data_def save_data_def write_of_def)

text \<open>The addition of the amount depends on the project file only.\<close>

lemma update_project_amount_cases:
  "update_project_amount e s pid a =
     (case find (\<lambda>p. proj_id p = pid) (load_data (ProjectsFile \<in> readable e) (projects_file s)) of
        None \<Rightarrow> Inr (False, s)
      | Some p \<Rightarrow>
          (case py_add (current_amount p) a of
             Inl x \<Rightarrow> Inl x
           | Inr c \<Rightarrow>
               (case update_first (\<lambda>p. proj_id p = pid) (\<lambda>p. p\<lparr>current_amount := c\<rparr>)
                       (load_data (ProjectsFile \<in> readable e) (projects_file s)) of
                  None \<Rightarrow> Inr (False, s)
                | Some ps \<Rightarrow>
                    Inr (True, s\<lparr>projects_file :=
                                  save_data (write_of e ProjectsFile) ps (projects_file s)\<rparr>))))"
  by (simp add: update_project_amount_def Let_def then_do_def split: option.split sum.split)

lemma update_first_find:
  assumes "find P xs = Some x" "P (f x)"
  shows "\<exists>ys. update_first P f xs = Some ys \<and> find P ys = Some (f x)"
  using assms by (induction xs) (auto split: if_splits)

lemma update_project_amount_found:
  assumes "find (\<lambda>p. proj_id p = pid) (projects_file s) = Some p"
    and "ProjectsFile \<in> readable e"
  shows "(py_add (current_amount p) a = Inl x \<longrightarrow> update_project_amount e s pid a = Inl x) \<and>
         (py_add (current_amount p) a = Inr c \<longrightarrow>
            (\<exists>r. update_project_amount e s pid a = Inr r \<and>
                 (ProjectsFile \<in> writable e \<longrightarrow>
                    find (\<lambda>p. proj_id p = pid) (projects_file (snd r)) =
                      Some (p\<lparr>current_amount := c\<rparr>)) \<and>
                 (ProjectsFile \<notin> writable e \<and> ProjectsFile \<notin> torn e \<longrightarrow>
                    projects_file (snd r) = projects_file s)))"
proof -
  have "proj_id (p\<lparr>current_amount := c\<rparr>) = pid"
    using assms(1) by (auto simp: find_Some_iff)
  from update_first_find [where P = "\<lambda>p. proj_id p = pid" and
      f = "\<lambda>p. p\<lparr>current_amount := c\<rparr>", OF assms(1) this]
  show ?thesis
    using assms
    by (auto simp: update_project_amount_cases load_data_def save_data_def write_of_def)
qed

section \<open>The paths through create_pledge\<close>

lemma create_pledge_returned:
  "create_pledge_body e s uid pid amt rid = returned r \<Longrightarrow> create_pledge e s uid pid amt rid = r"
  by (simp add: create_pledge_def returned_def)

lemma create_pledge_body_no_reward:
  assumes "get_project_by_id e s pid = Inr (Some v)" "0 < days_remaining v" "\<not> truthy rid"
  shows "create_pledge_body e s uid pid amt rid = accept_pledge e s uid pid amt rid"
  using assms by (simp add: create_pledge_body_def)

lemma create_pledge_body_with_reward:
  assumes "get_project_by_id e s pid = Inr (Some v)" "0 < days_remaining v" "truthy rid"
    and "find (\<lambda>r. tier_id r = the rid) (get_reward_tiers e s pid) = Some t"
  shows "create_pledge_body e s uid pid amt rid =
     (if val amt < val (min_amount t)
      then returned (reject_pledge e s uid pid amt rid (Amount_below_min (min_amount t)))
      else if remaining_quota t \<le> 0 then returned (reject_pledge e s uid pid amt rid Sold_out)
      else accept_pledge e s uid pid amt rid)"
  using assms by (simp add: create_pledge_body_def)

lemma create_pledge_body_reward_missing:
  assumes "get_project_by_id e s pid = Inr (Some v)" "0 < days_remaining v" "truthy rid"
    and "find (\<lambda>r. tier_id r = the rid) (get_reward_tiers e s pid) = None"
  shows "create_pledge_body e s uid pid amt rid =
           returned (reject_pledge e s uid pid amt rid Reward_not_found)"
  using assms by (simp add: create_pledge_body_def)

lemma create_pledge_body_valid:
  assumes "get_project_by_id e s pid = Inr (Some v)" "0 < days_remaining v"
    and "\<not> truthy rid \<or>
         (\<exists>t. find (\<lambda>r. tier_id r = the rid) (get_reward_tiers e s pid) = Some t \<and>
              val (min_amount t) \<le> val amt \<and> 0 < remaining_quota t)"
  shows "create_pledge_body e s uid pid amt rid = accept_pledge e s uid pid amt rid"
  using assms by (auto simp: create_pledge_body_def)

lemma try_map_proj:
  "try_map (project_view_of e) xs = Inr vs \<Longrightarrow> map proj vs = xs"
proof (induction xs arbitrary: vs)
  case Nil
  then show ?case by simp
next
  case (Cons p ps)
  then show ?case
    by (auto simp: then_do_Inr_iff project_view_of_def)
qed

lemma find_proj:
  "find (\<lambda>v. proj_id (proj v) = pid) vs = Some v \<Longrightarrow>
   find (\<lambda>p. proj_id p = pid) (map proj vs) = Some (proj v)"
  by (induction vs) (auto split: if_splits)

lemma get_project_by_id_Some:
  assumes "get_project_by_id e s pid = Inr (Some v)"
  shows "ProjectsFile \<in> readable e \<and> find (\<lambda>p. proj_id p = pid) (projects_file s) = Some (proj v)"
proof -
  from assms obtain vs where
    all: "try_map (project_view_of e) (load_data (ProjectsFile \<in> readable e) (projects_file s)) = Inr vs"
    and v: "find (\<lambda>v. proj_id (proj v) = pid) vs = Some v"
    by (auto simp: get_project_by_id_def get_all_projects_def then_do_Inr_iff)
  from try_map_proj [OF all] find_proj [OF v]
  have f: "find (\<lambda>p. proj_id p = pid) (load_data (ProjectsFile \<in> readable e) (projects_file s)) =
             Some (proj v)" by simp
  then have "ProjectsFile \<in> readable e" by (auto simp: load_data_def split: if_splits)
  with f show ?thesis by (simp add: load_data_def)
qed

text \<open>What the accepting path returns: it depends on whether the addition raises.\<close>

lemma accept_pledge_raises:
  assumes "find (\<lambda>p. proj_id p = pid) (projects_file s) = Some p" "ProjectsFile \<in> readable e"
    and "py_add (current_amount p) amt = Inl x"
  shows "accept_pledge e s uid pid amt rid = (Inl x, save_pledge e s uid pid amt rid)"
proof -
  have "find (\<lambda>p. proj_id p = pid) (projects_file (save_pledge e s uid pid amt rid)) = Some p"
    using assms(1) by (simp add: save_pledge_frame)
  from update_project_amount_found [OF this assms(2), of amt x] assms(3)
  show ?thesis by (simp add: accept_pledge_def Let_def)
qed

lemma accept_pledge_returns:
  assumes "find (\<lambda>p. proj_id p = pid) (projects_file s) = Some p" "ProjectsFile \<in> readable e"
    and "py_add (current_amount p) amt = Inr c"
  shows "\<exists>r. update_project_amount e (save_pledge e s uid pid amt rid) pid amt = Inr r \<and>
             accept_pledge e s uid pid amt rid =
               (Inr (Success (length (load_data (PledgesFile \<in> readable e) (pledges_file s)) + 1)),
                if truthy rid then snd (update_reward_quota e (snd r) (the rid) 1) else snd r) \<and>
             (ProjectsFile \<in> writable e \<longrightarrow>
                find (\<lambda>p. proj_id p = pid) (projects_file (snd r)) =
                  Some (p\<lparr>current_amount := c\<rparr>)) \<and>
             (ProjectsFile \<notin> writable e \<and> ProjectsFile \<notin> torn e \<longrightarrow>
                projects_file (snd r) = projects_file s)"
proof -
  have "find (\<lambda>p. proj_id p = pid) (projects_file (save_pledge e s uid pid amt rid)) = Some p"
    using assms(1) by (simp add: save_pledge_frame)
  from update_project_amount_found [OF this assms(2), of amt _ c] assms(3)
  obtain r where r: "update_project_amount e (save_pledge e s uid pid amt rid) pid amt = Inr r"
    and w: "ProjectsFile \<in> writable e \<longrightarrow>
                find (\<lambda>p. proj_id p = pid) (projects_file (snd r)) =
                  Some (p\<lparr>current_amount := c\<rparr>)"
    and u: "ProjectsFile \<notin> writable e \<and> ProjectsFile \<notin> torn e \<longrightarrow>
                projects_file (snd r) = projects_file (save_pledge e s uid pid amt rid)"
    by blast
  from r w u show ?thesis
    by (auto simp: accept_pledge_def Let_def new_pledge_def save_pledge_frame)
qed

lemma create_pledge_of_accept:
  assumes "create_pledge_body e s uid pid amt rid = accept_pledge e s uid pid amt rid"
  shows "accept_pledge e s uid pid amt rid = (Inl x, s1) \<Longrightarrow>
           create_pledge e s uid pid amt rid = reject_pledge e s1 uid pid amt rid (System_error x)"
    and "accept_pledge e s uid pid amt rid = (Inr r, s1) \<Longrightarrow>
           create_pledge e s uid pid amt rid = (r, s1)"
  using assms by (simp_all add: create_pledge_def)

lemma update_reward_quota_rewards_cong:
  "rewards_file s1 = rewards_file s2 \<Longrightarrow>
   rewards_file (snd (update_reward_quota e s1 rid d)) =
   rewards_file (snd (update_reward_quota e s2 rid d))"
  by (simp add: update_reward_quota_def split: option.split)

lemma create_pledge_accept_failure:
  assumes "create_pledge_body e s uid pid amt rid = accept_pledge e s uid pid amt rid"
    and "find (\<lambda>p. proj_id p = pid) (projects_file s) = Some p" "ProjectsFile \<in> readable e"
    and "py_add (current_amount p) amt = Inl x"
  shows "create_pledge e s uid pid amt rid =
           reject_pledge e (save_pledge e s uid pid amt rid) uid pid amt rid (System_error x)"
  using create_pledge_of_accept(1) [OF assms(1) accept_pledge_raises [OF assms(2-4)]] .

lemma create_pledge_accept_success:
  assumes "create_pledge_body e s uid pid amt rid = accept_pledge e s uid pid amt rid"
    and "find (\<lambda>p. proj_id p = pid) (projects_file s) = Some p" "ProjectsFile \<in> readable e"
    and "py_add (current_amount p) amt = Inr c"
  shows "\<exists>S. create_pledge e s uid pid amt rid =
               (Success (length (load_data (PledgesFile \<in> readable e) (pledges_file s)) + 1), S) \<and>
             pledges_file S = pledges_file (save_pledge e s uid pid amt rid) \<and>
             rejected_pledges_file S = rejected_pledges_file s \<and>
             users_file S = users_file s \<and>
             rewards_file S =
               (if truthy rid then rewards_file (snd (update_reward_quota e s (the rid) 1))
                else rewards_file s) \<and>
             (ProjectsFile \<in> writable e \<longrightarrow>
                find (\<lambda>p. proj_id p = pid) (projects_file S) = Some (p\<lparr>current_amount := c\<rparr>)) \<and>
             (ProjectsFile \<notin> writable e \<and> ProjectsFile \<notin> torn e \<longrightarrow>
                projects_file S = projects_file s)"
proof -
  from accept_pledge_returns [OF assms(2-4), of uid rid]
  obtain r where r: "update_project_amount e (save_pledge e s uid pid amt rid) pid amt = Inr r"
    and acc: "accept_pledge e s uid pid amt rid =
               (Inr (Success (length (load_data (PledgesFile \<in> readable e) (pledges_file s)) + 1)),
                if truthy rid then snd (update_reward_quota e (snd r) (the rid) 1) else snd r)"
    and w: "ProjectsFile \<in> writable e \<longrightarrow>
                find (\<lambda>p. proj_id p = pid) (projects_file (snd r)) =
                  Some (p\<lparr>current_amount := c\<rparr>)"
    and u: "ProjectsFile \<notin> writable e \<and> ProjectsFile \<notin> torn e \<longrightarrow>
                projects_file (snd r) = projects_file s"
    by blast
  note fr = update_project_amount_frame [OF r]
  have rw: "rewards_file (snd r) = rewards_file s"
    using fr(1) by (simp add: save_pledge_frame)
  let ?S = "if truthy rid then snd (update_reward_quota e (snd r) (the rid) 1) else snd r"
  have "create_pledge e s uid pid amt rid =
          (Success (length (load_data (PledgesFile \<in> readable e) (pledges_file s)) + 1), ?S)"
    using create_pledge_of_accept(2) [OF assms(1) acc] .
  moreover have "pledges_file ?S = pledges_file (save_pledge e s uid pid amt rid)"
    using fr(3) by (simp add: update_reward_quota_frame)
  moreover have "rejected_pledges_file ?S = rejected_pledges_file s"
    using fr(4) by (simp add: update_reward_quota_frame save_pledge_frame)
  moreover have "users_file ?S = users_file s"
    using fr(2) by (simp add: update_reward_quota_frame save_pledge_frame)
  moreover have "rewards_file ?S =
               (if truthy rid then rewards_file (snd (update_reward_quota e s (the rid) 1))
                else rewards_file s)"
    using rw update_reward_quota_rewards_cong [OF rw] by simp
  moreover have "ProjectsFile \<in> writable e \<longrightarrow>
                find (\<lambda>p. proj_id p = pid) (projects_file ?S) = Some (p\<lparr>current_amount := c\<rparr>)"
    using w by (simp add: update_reward_quota_frame)
  moreover have "ProjectsFile \<notin> writable e \<and> ProjectsFile \<notin> torn e \<longrightarrow>
                projects_file ?S = projects_file s"
    using u by (simp add: update_reward_quota_frame)
  ultimately show ?thesis by blast
qed

lemma accept_outcome:
  assumes "create_pledge_body e s uid pid amt rid = accept_pledge e s uid pid amt rid"
  shows "(\<exists>n. fst (create_pledge e s uid pid amt rid) = Success n) \<or>
         (\<exists>x. fst (create_pledge e s uid pid amt rid) = Failure (System_error x))"
  using assms
  by (auto simp: create_pledge_def accept_pledge_def Let_def reject_pledge_fst split: sum.splits)

section \<open>Evaluation on the sample data\<close>

declare py_add.simps [simp del] py_mul.simps [simp del] py_div.simps [simp del]

lemmas demo_defs = smart_home_def early_bird_def standard_package_def john_def jane_def mike_def
  seed_store_def healthy_env_def simple_pledge_def backers_store_def

lemmas model_defs = create_pledge_def create_pledge_body_def accept_pledge_def reject_pledge_def
  returned_def new_pledge_def save_pledge_def
  get_project_by_id_def get_all_projects_def project_view_of_def get_reward_tiers_def
  update_project_amount_def update_reward_quota_def load_data_def save_data_def write_of_def
  calculate_days_remaining_def today_def seconds_per_day_def
  truthy_def stored_reward_id_def then_do_def

text \<open>Numbers of the sample data: no int is near the float range, no sum is rounded.\<close>

lemma overflow_bound_large: "2 ^ 64 \<le> overflow_bound"
  by (simp add: overflow_bound_def)

lemma to_float_int:
  assumes "\<bar>i\<bar> < 2 ^ 64"
  shows "to_float (PyInt i) = Inr (round_double (of_int i))"
proof -
  have "\<bar>of_int i :: rat\<bar> < of_int (2 ^ 64)"
    using assms unfolding of_int_abs [symmetric] of_int_less_iff .
  then have "\<bar>of_int i :: rat\<bar> < 2 ^ 64" by simp
  with overflow_bound_large show ?thesis by (simp add: to_float_def)
qed

lemma to_float_float: "to_float (PyFloat x) = Inr x"
  by (simp add: to_float_def)

lemma round_double_samples:
  "round_double 0 = 0" "round_double 1 = 1" "round_double 3 = 3" "round_double 100 = 100"
  "round_double 200 = 200" "round_double 300 = 300" "round_double 500 = 500"
  "round_double 1000 = 1000" "round_double 1500 = 1500" "round_double 35650 = 35650" "round_double 36250 = 36250"
  "round_double 41750 = 41750"
  "round_double (round_double (143 / 200) * 100) = 143 / 2"
  by code_simp+

lemmas float_arith = py_add.simps py_mul.simps py_div.simps float_op_def then_do_def
  to_float_int to_float_float round_double_samples

lemma sample_progress:
  "calculate_progress_percentage (PyFloat 35750) (PyFloat 50000) = Inr (PyFloat (143 / 2))"
  by (simp add: calculate_progress_percentage_def float_arith py_min_def)

lemma sample_add_500: "py_add (PyFloat 35750) (PyFloat 500) = Inr (PyFloat 36250)"
  by (simp add: float_arith)

lemma sample_add_6000: "py_add (PyFloat 35750) (PyFloat 6000) = Inr (PyFloat 41750)"
  by (simp add: float_arith)

lemma sample_add_minus_100: "py_add (PyFloat 35750) (PyFloat (- 100)) = Inr (PyFloat 35650)"
  by (simp add: float_arith)

lemma huge_overflows: "overflow_bound \<le> \<bar>of_int huge\<bar>" "overflow_bound \<le> \<bar>of_int (- huge)\<bar>"
  by (simp_all add: overflow_bound_def huge_def)

lemma huge_positive: "0 < huge" "0 \<le> huge"
  by (simp_all add: huge_def)

lemma sample_add_huge: "py_add (PyFloat 35750) (PyInt huge) = Inl Int_too_large_for_float"
  by (simp add: py_add.simps float_op_def to_float_def then_do_def huge_overflows)

lemma sample_add_minus_huge: "py_add (PyFloat 35750) (PyInt (- huge)) = Inl Int_too_large_for_float"
  by (simp add: py_add.simps float_op_def to_float_def then_do_def huge_overflows)

text \<open>The float nearest to 0.1 added to 35750.0: the sum is rounded.\<close>

lemma sample_add_tenth:
  "py_add (PyFloat 35750) (PyFloat (3602879701896397 / 36028797018963968)) =
     Inr (PyFloat (4913456330519347 / 137438953472))"
  by code_simp

lemmas sample_arith = sample_progress sample_add_500 sample_add_6000 sample_add_minus_100
  sample_add_huge sample_add_minus_huge sample_add_tenth

lemma smart_home_view:
  "get_project_by_id healthy_env seed_store ''10001001'' =
     Inr (Some \<lparr>proj = smart_home, days_remaining = 45, progress_percentage = PyFloat (143 / 2)\<rparr>)"
  by (simp add: demo_defs model_defs sample_arith)

lemma smart_home_active:
  "0 < days_remaining \<lparr>proj = smart_home, days_remaining = 45, progress_percentage = PyFloat (143 / 2)\<rparr>"
  by simp

lemma early_bird_selected:
  "find (\<lambda>r. tier_id r = the (Some ''reward_1''))
     (get_reward_tiers healthy_env seed_store ''10001001'') = Some early_bird"
  by (simp add: demo_defs model_defs)

lemma standard_package_selected:
  "find (\<lambda>r. tier_id r = the (Some ''reward_2''))
     (get_reward_tiers healthy_env seed_store ''10001001'') = Some standard_package"
  by (simp add: demo_defs model_defs)

lemma seed_files:
  "projects_file seed_store = [smart_home]" "pledges_file seed_store = []"
  "rejected_pledges_file seed_store = []" "rewards_file seed_store = [early_bird, standard_package]"
  by (simp_all add: seed_store_def)

lemma healthy_files:
  "f \<in> readable healthy_env" "f \<in> writable healthy_env"
  by (simp_all add: healthy_env_def)

lemma healthy_now: "now healthy_env = 0"
  by (simp add: healthy_env_def)

section \<open>Order of the amount check and the quota check\<close>

text \<open>
  Claim C2. For a pledge on an active project whose reward resolves to a tier of the
  project: an amount below the tier's minimum is rejected with the amount reason carrying
  that minimum, whatever the remaining quota (0 in particular), and this is the reason the
  rejection file records; the sold-out reason is returned only when the amount has passed
  the minimum check.
\<close>

theorem min_amount_check_precedes_quota_check:
  assumes "get_project_by_id e s pid = Inr (Some v)" "0 < days_remaining v" "truthy rid"
    and "find (\<lambda>r. tier_id r = the rid) (get_reward_tiers e s pid) = Some t"
  shows "(val amt < val (min_amount t) \<longrightarrow>
            fst (create_pledge e s uid pid amt rid) = Failure (Amount_below_min (min_amount t)) \<and>
            (RejectedFile \<in> readable e \<and> RejectedFile \<in> writable e \<longrightarrow>
               rejected_pledges_file (snd (create_pledge e s uid pid amt rid)) =
                 rejected_pledges_file s @
                   [\<lparr>rej_user_id = uid, rej_project_id = pid, rej_amount = amt,
                     rej_reward_id = rid, rejection_date = now e,
                     rejection_reason = Amount_below_min (min_amount t)\<rparr>])) \<and>
         (fst (create_pledge e s uid pid amt rid) = Failure Sold_out \<longrightarrow>
            val (min_amount t) \<le> val amt \<and> remaining_quota t \<le> 0)"
proof (intro conjI impI)
  note body = create_pledge_body_with_reward [OF assms, of uid amt]
  {
    assume low: "val amt < val (min_amount t)"
    with body have run: "create_pledge e s uid pid amt rid =
        reject_pledge e s uid pid amt rid (Amount_below_min (min_amount t))"
      by (simp add: create_pledge_returned)
    show "fst (create_pledge e s uid pid amt rid) = Failure (Amount_below_min (min_amount t))"
      by (simp add: run reject_pledge_fst)
    assume "RejectedFile \<in> readable e \<and> RejectedFile \<in> writable e"
    then show "rejected_pledges_file (snd (create_pledge e s uid pid amt rid)) =
                 rejected_pledges_file s @
                   [\<lparr>rej_user_id = uid, rej_project_id = pid, rej_amount = amt,
                     rej_reward_id = rid, rejection_date = now e,
                     rejection_reason = Amount_below_min (min_amount t)\<rparr>]"
      using assms(3)
      by (simp add: run reject_pledge_rejected load_data_def save_data_def write_of_def
            stored_reward_id_def)
  }
  assume sold: "fst (create_pledge e s uid pid amt rid) = Failure Sold_out"
  show "val (min_amount t) \<le> val amt"
  proof (rule ccontr)
    assume "\<not> val (min_amount t) \<le> val amt"
    with body have "create_pledge e s uid pid amt rid =
        reject_pledge e s uid pid amt rid (Amount_below_min (min_amount t))"
      by (simp add: create_pledge_returned)
    with sold show False by (simp add: reject_pledge_fst)
  qed
  show "remaining_quota t \<le> 0"
  proof (rule ccontr)
    assume q: "\<not> remaining_quota t \<le> 0"
    show False
    proof (cases "val amt < val (min_amount t)")
      case True
      with body have "create_pledge e s uid pid amt rid =
          reject_pledge e s uid pid amt rid (Amount_below_min (min_amount t))"
        by (simp add: create_pledge_returned)
      with sold show False by (simp add: reject_pledge_fst)
    next
      case False
      with q body have "create_pledge_body e s uid pid amt rid = accept_pledge e s uid pid amt rid"
        by simp
      from accept_outcome [OF this] sold show False by auto
    qed
  qed
qed

text \<open>
  The sold-out first tier of the sample project (minimum 2500.0): 1000.0 is rejected for
  the amount, 3000.0 for the quota.
\<close>

theorem min_amount_check_precedes_quota_check_witness:
  "get_project_by_id healthy_env seed_store ''10001001'' =
     Inr (Some \<lparr>proj = smart_home, days_remaining = 45, progress_percentage = PyFloat (143 / 2)\<rparr>) \<and>
   truthy (Some ''reward_1'') \<and>
   find (\<lambda>r. tier_id r = the (Some ''reward_1''))
     (get_reward_tiers healthy_env seed_store ''10001001'') = Some early_bird \<and>
   val (PyFloat 1000) < val (min_amount early_bird) \<and> remaining_quota early_bird = 0 \<and>
   RejectedFile \<in> readable healthy_env \<and> RejectedFile \<in> writable healthy_env \<and>
   fst (create_pledge healthy_env seed_store ''user_0002'' ''10001001'' (PyFloat 1000)
          (Some ''reward_1'')) = Failure (Amount_below_min (PyFloat 2500)) \<and>
   rejected_pledges_file
     (snd (create_pledge healthy_env seed_store ''user_0002'' ''10001001'' (PyFloat 1000)
            (Some ''reward_1''))) =
     [\<lparr>rej_user_id = ''user_0002'', rej_project_id = ''10001001'', rej_amount = PyFloat 1000,
       rej_reward_id = Some ''reward_1'', rejection_date = 0,
       rejection_reason = Amount_below_min (PyFloat 2500)\<rparr>] \<and>
   fst (create_pledge healthy_env seed_store ''user_0002'' ''10001001'' (PyFloat 3000)
          (Some ''reward_1'')) = Failure Sold_out \<and>
   val (min_amount early_bird) \<le> val (PyFloat 3000) \<and> remaining_quota early_bird \<le> 0"
proof -
  have r: "truthy (Some ''reward_1'')" by (simp add: truthy_def)
  have q: "fst (create_pledge healthy_env seed_store ''user_0002'' ''10001001'' (PyFloat 3000)
          (Some ''reward_1'')) = Failure Sold_out"
    by (simp add: demo_defs model_defs sample_arith)
  show ?thesis
    using smart_home_view r early_bird_selected q healthy_files [of RejectedFile]
      min_amount_check_precedes_quota_check
        [OF smart_home_view smart_home_active r early_bird_selected, of "PyFloat 1000" "''user_0002''"]
      min_amount_check_precedes_quota_check
        [OF smart_home_view smart_home_active r early_bird_selected, of "PyFloat 3000" "''user_0002''"]
    by (simp add: early_bird_def seed_store_def healthy_env_def)
qed

section \<open>No reward selected\<close>

text \<open>
  Claim C8, as amended. On an existing project with days remaining, a missing (\<open>None\<close>) or
  empty \<open>reward_id\<close> skips the three reward checks whatever the reward file holds, and the
  reward file is not changed. The pledge then succeeds, and is stored without a
  \<open>reward_id\<close>, provided that adding the amount to the project's \<open>current_amount\<close> raises no
  exception; when the addition raises, the call fails with the reason "System error".
  A non-empty \<open>reward_id\<close> that resolves to no tier of the project is rejected with
  "Selected reward tier not found".
\<close>

theorem empty_reward_id_skips_reward_checks:
  assumes "get_project_by_id e s pid = Inr (Some v)" "0 < days_remaining v"
  shows "(rid = None \<or> rid = Some [] \<longrightarrow>
            (py_add (current_amount (proj v)) amt = Inr c \<longrightarrow>
               fst (create_pledge e s uid pid amt rid) =
                 Success (length (load_data (PledgesFile \<in> readable e) (pledges_file s)) + 1) \<and>
               rewards_file (snd (create_pledge e s uid pid amt rid)) = rewards_file s \<and>
               (PledgesFile \<in> readable e \<and> PledgesFile \<in> writable e \<longrightarrow>
                  pledges_file (snd (create_pledge e s uid pid amt rid)) =
                    pledges_file s @
                      [\<lparr>pledge_id = length (pledges_file s) + 1, user_id = uid, project_id = pid,
                        amount = amt, reward_id = None, pledge_date = now e\<rparr>])) \<and>
            (py_add (current_amount (proj v)) amt = Inl x \<longrightarrow>
               fst (create_pledge e s uid pid amt rid) = Failure (System_error x) \<and>
               rewards_file (snd (create_pledge e s uid pid amt rid)) = rewards_file s)) \<and>
         (rid = Some r \<and> r \<noteq> [] \<and>
          find (\<lambda>x. tier_id x = r) (get_reward_tiers e s pid) = None \<longrightarrow>
            fst (create_pledge e s uid pid amt rid) = Failure Reward_not_found)"
proof (intro conjI impI)
  from get_project_by_id_Some [OF assms(1)]
  have rd: "ProjectsFile \<in> readable e"
    and f: "find (\<lambda>p. proj_id p = pid) (projects_file s) = Some (proj v)" by simp_all
  {
    assume e: "rid = None \<or> rid = Some []"
    then have n: "\<not> truthy rid" by (auto simp: truthy_def)
    note body = create_pledge_body_no_reward [OF assms n, of uid amt]
    {
      assume ok: "py_add (current_amount (proj v)) amt = Inr c"
      from create_pledge_accept_success [OF body f rd ok] obtain S where
        run: "create_pledge e s uid pid amt rid =
               (Success (length (load_data (PledgesFile \<in> readable e) (pledges_file s)) + 1), S)"
        and pl: "pledges_file S = pledges_file (save_pledge e s uid pid amt rid)"
        and rw: "rewards_file S =
               (if truthy rid then rewards_file (snd (update_reward_quota e s (the rid) 1))
                else rewards_file s)"
        by blast
      show "fst (create_pledge e s uid pid amt rid) =
                 Success (length (load_data (PledgesFile \<in> readable e) (pledges_file s)) + 1)"
        by (simp add: run)
      show "rewards_file (snd (create_pledge e s uid pid amt rid)) = rewards_file s"
        using n by (simp add: run rw)
      assume io: "PledgesFile \<in> readable e \<and> PledgesFile \<in> writable e"
      then show "pledges_file (snd (create_pledge e s uid pid amt rid)) =
                    pledges_file s @
                      [\<lparr>pledge_id = length (pledges_file s) + 1, user_id = uid, project_id = pid,
                        amount = amt, reward_id = None, pledge_date = now e\<rparr>]"
        using n by (simp add: run pl save_pledge_pledges stored_reward_id_def)
    }
    assume bad: "py_add (current_amount (proj v)) amt = Inl x"
    note run = create_pledge_accept_failure [OF body f rd bad]
    show "fst (create_pledge e s uid pid amt rid) = Failure (System_error x)"
      by (simp add: run reject_pledge_fst)
    show "rewards_file (snd (create_pledge e s uid pid amt rid)) = rewards_file s"
      by (simp add: run reject_pledge_frame save_pledge_frame)
  }
  assume m: "rid = Some r \<and> r \<noteq> [] \<and>
          find (\<lambda>x. tier_id x = r) (get_reward_tiers e s pid) = None"
  then have tr: "truthy rid" by (simp add: truthy_def)
  from m have "find (\<lambda>x. tier_id x = the rid) (get_reward_tiers e s pid) = None" by simp
  from create_pledge_returned [OF create_pledge_body_reward_missing [OF assms tr this]]
  show "fst (create_pledge e s uid pid amt rid) = Failure Reward_not_found"
    by (simp add: reject_pledge_fst)
qed

text \<open>
  The empty string with 500.0 (accepted), no reward with an int beyond the float range
  (system error), and an identifier that no tier of the project has.
\<close>

theorem empty_reward_id_skips_reward_checks_witness:
  "get_project_by_id healthy_env seed_store ''10001001'' =
     Inr (Some \<lparr>proj = smart_home, days_remaining = 45, progress_percentage = PyFloat (143 / 2)\<rparr>) \<and>
   py_add (current_amount smart_home) (PyFloat 500) = Inr (PyFloat 36250) \<and>
   PledgesFile \<in> readable healthy_env \<and> PledgesFile \<in> writable healthy_env \<and>
   fst (create_pledge healthy_env seed_store ''user_0002'' ''10001001'' (PyFloat 500) (Some [])) =
     Success 1 \<and>
   rewards_file
     (snd (create_pledge healthy_env seed_store ''user_0002'' ''10001001'' (PyFloat 500) (Some []))) =
     rewards_file seed_store \<and>
   pledges_file
     (snd (create_pledge healthy_env seed_store ''user_0002'' ''10001001'' (PyFloat 500) (Some []))) =
     [\<lparr>pledge_id = 1, user_id = ''user_0002'', project_id = ''10001001'', amount = PyFloat 500,
       reward_id = None, pledge_date = 0\<rparr>] \<and>
   py_add (current_amount smart_home) (PyInt huge) = Inl Int_too_large_for_float \<and>
   fst (create_pledge healthy_env seed_store ''user_0002'' ''10001001'' (PyInt huge) None) =
     Failure (System_error Int_too_large_for_float) \<and>
   find (\<lambda>x. tier_id x = ''reward_9'') (get_reward_tiers healthy_env seed_store ''10001001'') = None \<and>
   fst (create_pledge healthy_env seed_store ''user_0002'' ''10001001'' (PyFloat 500)
          (Some ''reward_9'')) = Failure Reward_not_found"
proof -
  have t: "find (\<lambda>x. tier_id x = ''reward_9'') (get_reward_tiers healthy_env seed_store ''10001001'') = None"
    by (simp add: demo_defs model_defs)
  have a: "py_add (current_amount smart_home) (PyFloat 500) = Inr (PyFloat 36250)"
    and b: "py_add (current_amount smart_home) (PyInt huge) = Inl Int_too_large_for_float"
    by (simp_all add: smart_home_def sample_add_500 sample_add_huge)
  show ?thesis
    using smart_home_view t a b healthy_files [of PledgesFile]
      empty_reward_id_skips_reward_checks [OF smart_home_view smart_home_active,
        of "Some []" "PyFloat 500" "PyFloat 36250" "''user_0002''" _ "''x''"]
      empty_reward_id_skips_reward_checks [OF smart_home_view smart_home_active,
        of None "PyInt huge" _ "''user_0002''" Int_too_large_for_float "''x''"]
      empty_reward_id_skips_reward_checks [OF smart_home_view smart_home_active,
        of "Some ''reward_9''" "PyFloat 500" _ "''user_0002''" _ "''reward_9''"]
    by (simp add: seed_store_def healthy_env_def load_data_def)
qed

text \<open>
  The claim as stated promises success for every amount. The sample project holds its
  \<open>current_amount\<close> as a float; an int amount of \<open>10 ^ 400\<close> with the empty \<open>reward_id\<close>
  makes \<^verbatim>\<open>project['current_amount'] += additional_amount\<close> raise OverflowError, and the call
  fails, after the pledge has been saved.
\<close>

theorem empty_reward_id_overflow_counterexample:
  "get_project_by_id healthy_env seed_store ''10001001'' =
     Inr (Some \<lparr>proj = smart_home, days_remaining = 45, progress_percentage = PyFloat (143 / 2)\<rparr>) \<and>
   create_pledge healthy_env seed_store ''user_0002'' ''10001001'' (PyInt huge) (Some []) =
     (Failure (System_error Int_too_large_for_float),
      seed_store\<lparr>pledges_file :=
          [\<lparr>pledge_id = 1, user_id = ''user_0002'', project_id = ''10001001'',
            amount = PyInt huge, reward_id = None, pledge_date = 0\<rparr>],
        rejected_pledges_file :=
          [\<lparr>rej_user_id = ''user_0002'', rej_project_id = ''10001001'', rej_amount = PyInt huge,
            rej_reward_id = None, rejection_date = 0,
            rejection_reason = System_error Int_too_large_for_float\<rparr>]\<rparr>)"
  by (simp add: demo_defs model_defs sample_arith)

text \<open>
  Claim C10, as amended. \<^verbatim>\<open>create_pledge\<close> has no positivity check: on an existing project
  with days remaining and without a reward, an amount that is zero or negative is accepted
  whenever adding it to \<open>current_amount\<close> raises no exception, and the sum is what a writable
  project file then holds for the project. With a reward that resolves to a tier, the
  amount reason is returned exactly when the amount is below the tier's minimum: the
  minimum of a selected tier is the only lower bound this component checks.
\<close>

theorem create_pledge_accepts_nonpositive_amount:
  assumes "get_project_by_id e s pid = Inr (Some v)" "0 < days_remaining v"
  shows "((rid = None \<or> rid = Some []) \<and> val amt \<le> 0 \<and>
          py_add (current_amount (proj v)) amt = Inr c \<longrightarrow>
            fst (create_pledge e s uid pid amt rid) =
              Success (length (load_data (PledgesFile \<in> readable e) (pledges_file s)) + 1) \<and>
            find (\<lambda>p. proj_id p = pid) (projects_file s) = Some (proj v) \<and>
            (ProjectsFile \<in> writable e \<longrightarrow>
               find (\<lambda>p. proj_id p = pid) (projects_file (snd (create_pledge e s uid pid amt rid))) =
                 Some ((proj v)\<lparr>current_amount := c\<rparr>))) \<and>
         (truthy rid \<and> find (\<lambda>r. tier_id r = the rid) (get_reward_tiers e s pid) = Some t \<longrightarrow>
            (fst (create_pledge e s uid pid amt rid) = Failure (Amount_below_min (min_amount t))) =
            (val amt < val (min_amount t)))"
proof (intro conjI impI)
  from get_project_by_id_Some [OF assms(1)]
  have rd: "ProjectsFile \<in> readable e"
    and f: "find (\<lambda>p. proj_id p = pid) (projects_file s) = Some (proj v)" by simp_all
  {
    assume h: "(rid = None \<or> rid = Some []) \<and> val amt \<le> 0 \<and>
          py_add (current_amount (proj v)) amt = Inr c"
    then have n: "\<not> truthy rid" by (auto simp: truthy_def)
    from h have ok: "py_add (current_amount (proj v)) amt = Inr c" by simp
    note body = create_pledge_body_no_reward [OF assms n, of uid amt]
    from create_pledge_accept_success [OF body f rd ok] obtain S where
      run: "create_pledge e s uid pid amt rid =
               (Success (length (load_data (PledgesFile \<in> readable e) (pledges_file s)) + 1), S)"
      and pr: "ProjectsFile \<in> writable e \<longrightarrow>
                find (\<lambda>p. proj_id p = pid) (projects_file S) =
                  Some ((proj v)\<lparr>current_amount := c\<rparr>)"
      by blast
    show "fst (create_pledge e s uid pid amt rid) =
              Success (length (load_data (PledgesFile \<in> readable e) (pledges_file s)) + 1)"
      by (simp add: run)
    show "find (\<lambda>p. proj_id p = pid) (projects_file s) = Some (proj v)" by (rule f)
    assume "ProjectsFile \<in> writable e"
    with pr show "find (\<lambda>p. proj_id p = pid)
        (projects_file (snd (create_pledge e s uid pid amt rid))) =
                 Some ((proj v)\<lparr>current_amount := c\<rparr>)"
      by (simp add: run)
  }
  assume sel: "truthy rid \<and> find (\<lambda>r. tier_id r = the rid) (get_reward_tiers e s pid) = Some t"
  then have tr: "truthy rid"
    and t: "find (\<lambda>r. tier_id r = the rid) (get_reward_tiers e s pid) = Some t" by simp_all
  note body = create_pledge_body_with_reward [OF assms tr t, of uid amt]
  show "(fst (create_pledge e s uid pid amt rid) = Failure (Amount_below_min (min_amount t))) =
            (val amt < val (min_amount t))"
  proof (cases "val amt < val (min_amount t)")
    case True
    with body show ?thesis by (simp add: create_pledge_returned reject_pledge_fst)
  next
    case False
    show ?thesis
    proof (cases "remaining_quota t \<le> 0")
      case True
      with False body show ?thesis by (simp add: create_pledge_returned reject_pledge_fst)
    next
      case q: False
      with False body
      have "create_pledge_body e s uid pid amt rid = accept_pledge e s uid pid amt rid" by simp
      from accept_outcome [OF this] False show ?thesis by auto
    qed
  qed
qed

text \<open>
  A pledge of -100.0 takes the sample project from 35750.0 to 35650.0; 4999.0 for the
  second tier (minimum 5000.0) is rejected for the amount.
\<close>

theorem create_pledge_accepts_nonpositive_amount_witness:
  "get_project_by_id healthy_env seed_store ''10001001'' =
     Inr (Some \<lparr>proj = smart_home, days_remaining = 45, progress_percentage = PyFloat (143 / 2)\<rparr>) \<and>
   val (PyFloat (- 100)) \<le> 0 \<and>
   py_add (current_amount smart_home) (PyFloat (- 100)) = Inr (PyFloat 35650) \<and>
   ProjectsFile \<in> writable healthy_env \<and>
   fst (create_pledge healthy_env seed_store ''user_0002'' ''10001001'' (PyFloat (- 100)) None) =
     Success 1 \<and>
   find (\<lambda>p. proj_id p = ''10001001'')
     (projects_file
       (snd (create_pledge healthy_env seed_store ''user_0002'' ''10001001'' (PyFloat (- 100)) None))) =
     Some (smart_home\<lparr>current_amount := PyFloat 35650\<rparr>) \<and>
   truthy (Some ''reward_2'') \<and>
   find (\<lambda>r. tier_id r = the (Some ''reward_2''))
     (get_reward_tiers healthy_env seed_store ''10001001'') = Some standard_package \<and>
   val (PyFloat 4999) < val (min_amount standard_package) \<and>
   fst (create_pledge healthy_env seed_store ''user_0002'' ''10001001'' (PyFloat 4999)
          (Some ''reward_2'')) = Failure (Amount_below_min (PyFloat 5000))"
proof -
  have a: "py_add (current_amount smart_home) (PyFloat (- 100)) = Inr (PyFloat 35650)"
    by (simp add: smart_home_def sample_arith)
  have r: "truthy (Some ''reward_2'')" by (simp add: truthy_def)
  show ?thesis
    using smart_home_view a r standard_package_selected healthy_files [of ProjectsFile]
      create_pledge_accepts_nonpositive_amount [OF smart_home_view smart_home_active,
        where rid = None and amt = "PyFloat (- 100)" and c = "PyFloat 35650"
          and uid = "''user_0002''"]
      create_pledge_accepts_nonpositive_amount [OF smart_home_view smart_home_active,
        where rid = "Some ''reward_2''" and amt = "PyFloat 4999" and uid = "''user_0002''"
          and t = standard_package]
    by (simp add: seed_store_def healthy_env_def load_data_def standard_package_def)
qed

text \<open>
  The claim as stated promises success for every amount that is not positive. The int
  \<open>- (10 ^ 400)\<close> without a reward is not accepted: the addition raises OverflowError, the
  call fails with a system error and the project keeps its amount.
\<close>

theorem nonpositive_amount_overflow_counterexample:
  "get_project_by_id healthy_env seed_store ''10001001'' =
     Inr (Some \<lparr>proj = smart_home, days_remaining = 45, progress_percentage = PyFloat (143 / 2)\<rparr>) \<and>
   val (PyInt (- huge)) \<le> 0 \<and>
   fst (create_pledge healthy_env seed_store ''user_0002'' ''10001001'' (PyInt (- huge)) None) =
     Failure (System_error Int_too_large_for_float) \<and>
   projects_file
     (snd (create_pledge healthy_env seed_store ''user_0002'' ''10001001'' (PyInt (- huge)) None)) =
     [smart_home]"
  by (simp add: demo_defs model_defs sample_arith huge_positive)

section \<open>The user directory is not consulted\<close>

lemma reject_pledge_users_irrelevant:
  "reject_pledge e (s\<lparr>users_file := us\<rparr>) uid pid amt rid why =
     (fst (reject_pledge e s uid pid amt rid why),
      (snd (reject_pledge e s uid pid amt rid why))\<lparr>users_file := us\<rparr>)"
  by (simp add: reject_pledge_def Let_def)

lemma update_project_amount_users_irrelevant:
  "update_project_amount e (s\<lparr>users_file := us\<rparr>) pid a =
     (case update_project_amount e s pid a of
        Inl x \<Rightarrow> Inl x
      | Inr r \<Rightarrow> Inr (fst r, (snd r)\<lparr>users_file := us\<rparr>))"
  by (simp add: update_project_amount_def Let_def then_do_def split: option.split sum.split)

lemma update_reward_quota_users_irrelevant:
  "update_reward_quota e (s\<lparr>users_file := us\<rparr>) rid d =
     (fst (update_reward_quota e s rid d), (snd (update_reward_quota e s rid d))\<lparr>users_file := us\<rparr>)"
  by (simp add: update_reward_quota_def split: option.split)

lemma save_pledge_users_irrelevant:
  "save_pledge e (s\<lparr>users_file := us\<rparr>) uid pid amt rid =
     (save_pledge e s uid pid amt rid)\<lparr>users_file := us\<rparr>"
  by (simp add: save_pledge_def new_pledge_def)

lemma accept_pledge_users_irrelevant:
  "accept_pledge e (s\<lparr>users_file := us\<rparr>) uid pid amt rid =
     (fst (accept_pledge e s uid pid amt rid),
      (snd (accept_pledge e s uid pid amt rid))\<lparr>users_file := us\<rparr>)"
  by (simp add: accept_pledge_def Let_def save_pledge_users_irrelevant new_pledge_def
        update_project_amount_users_irrelevant update_reward_quota_users_irrelevant
        split: sum.split)

lemma create_pledge_body_users_irrelevant:
  "create_pledge_body e (s\<lparr>users_file := us\<rparr>) uid pid amt rid =
     (fst (create_pledge_body e s uid pid amt rid),
      (snd (create_pledge_body e s uid pid amt rid))\<lparr>users_file := us\<rparr>)"
proof -
  have g: "get_project_by_id e (s\<lparr>users_file := us\<rparr>) pid = get_project_by_id e s pid"
    by (simp add: get_project_by_id_def get_all_projects_def)
  have t: "get_reward_tiers e (s\<lparr>users_file := us\<rparr>) pid = get_reward_tiers e s pid"
    by (simp add: get_reward_tiers_def)
  show ?thesis
    unfolding create_pledge_body_def g t
    by (auto simp: returned_def accept_pledge_users_irrelevant reject_pledge_users_irrelevant
          split: option.split sum.split)
qed

lemma create_pledge_users_irrelevant:
  "create_pledge e (s\<lparr>users_file := us\<rparr>) uid pid amt rid =
     (fst (create_pledge e s uid pid amt rid),
      (snd (create_pledge e s uid pid amt rid))\<lparr>users_file := us\<rparr>)"
proof (cases "create_pledge_body e s uid pid amt rid")
  case (Pair r s1)
  then show ?thesis
    by (cases r)
       (simp_all add: create_pledge_def create_pledge_body_users_irrelevant
          reject_pledge_users_irrelevant)
qed

text \<open>
  Claim C9, as amended. \<^verbatim>\<open>create_pledge\<close> never reads the user directory: replacing the
  users file by any other changes neither the result nor the other files. So for every
  \<open>user_id\<close>, known or not, a pledge on an existing project with days remaining, with no
  reward or a reward that resolves to a tier whose minimum the amount reaches and which has
  quota left, and with an amount whose addition to \<open>current_amount\<close> raises no exception,
  returns success; and the pledge is recorded under that \<open>user_id\<close> when the pledge file
  can be read and written.
\<close>

theorem create_pledge_ignores_user_directory:
  assumes "get_project_by_id e s pid = Inr (Some v)" "0 < days_remaining v"
    and "\<not> truthy rid \<or>
         (\<exists>t. find (\<lambda>r. tier_id r = the rid) (get_reward_tiers e s pid) = Some t \<and>
              val (min_amount t) \<le> val amt \<and> 0 < remaining_quota t)"
    and "py_add (current_amount (proj v)) amt = Inr c"
  shows "create_pledge e (s\<lparr>users_file := us\<rparr>) uid pid amt rid =
           (fst (create_pledge e s uid pid amt rid),
            (snd (create_pledge e s uid pid amt rid))\<lparr>users_file := us\<rparr>) \<and>
         fst (create_pledge e (s\<lparr>users_file := us\<rparr>) uid pid amt rid) =
           Success (length (load_data (PledgesFile \<in> readable e) (pledges_file s)) + 1) \<and>
         (PledgesFile \<in> readable e \<and> PledgesFile \<in> writable e \<longrightarrow>
            pledges_file (snd (create_pledge e (s\<lparr>users_file := us\<rparr>) uid pid amt rid)) =
              pledges_file s @
                [\<lparr>pledge_id = length (pledges_file s) + 1, user_id = uid, project_id = pid,
                  amount = amt, reward_id = stored_reward_id rid, pledge_date = now e\<rparr>])"
proof -
  from get_project_by_id_Some [OF assms(1)]
  have rd: "ProjectsFile \<in> readable e"
    and f: "find (\<lambda>p. proj_id p = pid) (projects_file s) = Some (proj v)" by simp_all
  note body = create_pledge_body_valid [OF assms(1-3), of uid]
  from create_pledge_accept_success [OF body f rd assms(4)] obtain S where
    run: "create_pledge e s uid pid amt rid =
               (Success (length (load_data (PledgesFile \<in> readable e) (pledges_file s)) + 1), S)"
    and pl: "pledges_file S = pledges_file (save_pledge e s uid pid amt rid)"
    by blast
  show ?thesis
    by (simp add: create_pledge_users_irrelevant run pl save_pledge_pledges)
qed

text \<open>An empty user directory and a user nobody knows: the pledge is accepted and stored.\<close>

theorem create_pledge_ignores_user_directory_witness:
  "get_project_by_id healthy_env seed_store ''10001001'' =
     Inr (Some \<lparr>proj = smart_home, days_remaining = 45, progress_percentage = PyFloat (143 / 2)\<rparr>) \<and>
   find (\<lambda>r. tier_id r = the (Some ''reward_2''))
     (get_reward_tiers healthy_env seed_store ''10001001'') = Some standard_package \<and>
   val (min_amount standard_package) \<le> val (PyFloat 6000) \<and>
   0 < remaining_quota standard_package \<and>
   py_add (current_amount smart_home) (PyFloat 6000) = Inr (PyFloat 41750) \<and>
   PledgesFile \<in> readable healthy_env \<and> PledgesFile \<in> writable healthy_env \<and>
   get_user_by_id healthy_env (seed_store\<lparr>users_file := []\<rparr>) ''nobody'' = None \<and>
   fst (create_pledge healthy_env (seed_store\<lparr>users_file := []\<rparr>) ''nobody'' ''10001001''
          (PyFloat 6000) (Some ''reward_2'')) = Success 1 \<and>
   pledges_file (snd (create_pledge healthy_env (seed_store\<lparr>users_file := []\<rparr>) ''nobody''
          ''10001001'' (PyFloat 6000) (Some ''reward_2''))) =
     [\<lparr>pledge_id = 1, user_id = ''nobody'', project_id = ''10001001'', amount = PyFloat 6000,
       reward_id = Some ''reward_2'', pledge_date = 0\<rparr>]"
proof -
  have ok: "val (min_amount standard_package) \<le> val (PyFloat 6000) \<and>
      0 < remaining_quota standard_package"
    by (simp add: demo_defs)
  have v: "\<not> truthy (Some ''reward_2'') \<or>
         (\<exists>t. find (\<lambda>r. tier_id r = the (Some ''reward_2''))
                (get_reward_tiers healthy_env seed_store ''10001001'') = Some t \<and>
              val (min_amount t) \<le> val (PyFloat 6000) \<and> 0 < remaining_quota t)"
    using standard_package_selected ok by simp
  have a: "py_add (current_amount (proj \<lparr>proj = smart_home, days_remaining = 45,
      progress_percentage = PyFloat (143 / 2)\<rparr>)) (PyFloat 6000) = Inr (PyFloat 41750)"
    by (simp add: smart_home_def sample_arith)
  have u: "get_user_by_id healthy_env (seed_store\<lparr>users_file := []\<rparr>) ''nobody'' = None"
    by (simp add: get_user_by_id_def load_data_def)
  note run = create_pledge_ignores_user_directory [OF smart_home_view smart_home_active v a,
        of "[]" "''nobody''"]
  show ?thesis
    using smart_home_view standard_package_selected ok a u healthy_files [of PledgesFile]
      run [THEN conjunct2]
    by (simp add: seed_files healthy_now load_data_def stored_reward_id_def truthy_def)
qed

text \<open>
  The claim as stated promises that the pledge is recorded. With a pledge file that cannot
  be written the call returns success and the file holds no pledge, because
  \<^verbatim>\<open>_save_data\<close> drops the exception; and a valid amount of \<open>10 ^ 400\<close> does not return
  success.
\<close>

theorem pledge_not_recorded_counterexample:
  "get_project_by_id (healthy_env\<lparr>writable := UNIV - {PledgesFile}\<rparr>) seed_store ''10001001'' =
     Inr (Some \<lparr>proj = smart_home, days_remaining = 45, progress_percentage = PyFloat (143 / 2)\<rparr>) \<and>
   fst (create_pledge (healthy_env\<lparr>writable := UNIV - {PledgesFile}\<rparr>) seed_store
          ''nobody'' ''10001001'' (PyFloat 6000) (Some ''reward_2'')) = Success 1 \<and>
   pledges_file (snd (create_pledge (healthy_env\<lparr>writable := UNIV - {PledgesFile}\<rparr>) seed_store
          ''nobody'' ''10001001'' (PyFloat 6000) (Some ''reward_2''))) = [] \<and>
   fst (create_pledge healthy_env seed_store ''nobody'' ''10001001'' (PyInt huge) None) =
     Failure (System_error Int_too_large_for_float)"
  by (simp add: demo_defs model_defs sample_arith)

section \<open>Side effects of an accepted pledge\<close>









section \<open>Failures that leave more than a rejection\<close>

lemma accept_pledge_raises_catalog:
  assumes "accept_pledge e s uid pid amt rid = (Inl x, s1)"
  shows "s1 = save_pledge e s uid pid amt rid"
  using assms by (auto simp: accept_pledge_def Let_def split: sum.splits)

lemma failed_pledge_leaves_catalog:
  assumes "fst (create_pledge e s uid pid amt rid) = Failure why"
  shows "projects_file (snd (create_pledge e s uid pid amt rid)) = projects_file s \<and>
         rewards_file (snd (create_pledge e s uid pid amt rid)) = rewards_file s"
proof (cases "create_pledge_body e s uid pid amt rid = accept_pledge e s uid pid amt rid")
  case True
  show ?thesis
  proof (cases "accept_pledge e s uid pid amt rid")
    case (Pair r s1)
    show ?thesis
    proof (cases r)
      case (Inl x)
      with Pair accept_pledge_raises_catalog [of e s uid pid amt rid x s1]
      have "s1 = save_pledge e s uid pid amt rid" by simp
      with True Pair Inl show ?thesis
        by (simp add: create_pledge_def reject_pledge_frame save_pledge_frame)
    next
      case (Inr out)
      with Pair have "\<exists>n. out = Success n"
        by (auto simp: accept_pledge_def Let_def split: sum.splits)
      with True Pair Inr assms show ?thesis
        by (auto simp: create_pledge_def)
    qed
  qed
next
  case False
  then show ?thesis
    by (auto simp: create_pledge_def create_pledge_body_def returned_def reject_pledge_frame
          split: sum.splits option.splits if_splits)
qed

text \<open>
  Claim C4 says that a call that fails, for whatever reason, changes nothing but the
  rejection file. The catalog is indeed unchanged by every failing call
  (\<open>failed_pledge_leaves_catalog\<close>), but the rejection file is not the only one that receives
  a record: a pledge of the int \<open>10 ^ 400\<close> on the sample project passes every check and is
  saved to the pledge file; the addition to the float \<open>current_amount\<close> then raises
  OverflowError, and the handler records a rejection and returns the failure.
\<close>

theorem system_error_after_saved_pledge:
  "create_pledge healthy_env seed_store ''user_0003'' ''10001001'' (PyInt huge) None =
     (Failure (System_error Int_too_large_for_float),
      seed_store\<lparr>pledges_file :=
          [\<lparr>pledge_id = 1, user_id = ''user_0003'', project_id = ''10001001'',
            amount = PyInt huge, reward_id = None, pledge_date = 0\<rparr>],
        rejected_pledges_file :=
          [\<lparr>rej_user_id = ''user_0003'', rej_project_id = ''10001001'', rej_amount = PyInt huge,
            rej_reward_id = None, rejection_date = 0,
            rejection_reason = System_error Int_too_large_for_float\<rparr>]\<rparr>)"
  by (simp add: demo_defs model_defs sample_arith)

text \<open>
  Claim C1 says that every call appends exactly one record to the two pledge files
  together. Two calls on the sample data do not. With a pledge file that cannot be written,
  a valid pledge of 500.0 returns success and neither file receives a record:
  \<^verbatim>\<open>_save_data\<close> catches the exception of the write and only prints it, so the handler of
  \<^verbatim>\<open>create_pledge\<close> never sees it. And a pledge of the int \<open>10 ^ 400\<close> for the second tier
  appends a record to both files: the pledge is saved before the addition raises.
\<close>

theorem create_pledge_record_count_failures:
  "create_pledge (healthy_env\<lparr>writable := UNIV - {PledgesFile}\<rparr>) seed_store
     ''user_0002'' ''10001001'' (PyFloat 500) None =
     (Success 1, seed_store\<lparr>projects_file := [smart_home\<lparr>current_amount := PyFloat 36250\<rparr>]\<rparr>) \<and>
   pledges_file seed_store = [] \<and> rejected_pledges_file seed_store = [] \<and>
   val (min_amount standard_package) \<le> val (PyInt huge) \<and>
   create_pledge healthy_env seed_store ''user_0004'' ''10001001'' (PyInt huge) (Some ''reward_2'') =
     (Failure (System_error Int_too_large_for_float),
      seed_store\<lparr>pledges_file :=
          [\<lparr>pledge_id = 1, user_id = ''user_0004'', project_id = ''10001001'',
            amount = PyInt huge, reward_id = Some ''reward_2'', pledge_date = 0\<rparr>],
        rejected_pledges_file :=
          [\<lparr>rej_user_id = ''user_0004'', rej_project_id = ''10001001'', rej_amount = PyInt huge,
            rej_reward_id = Some ''reward_2'', rejection_date = 0,
            rejection_reason = System_error Int_too_large_for_float\<rparr>]\<rparr>)"
proof -
  have big: "(5000::rat) \<le> of_int huge" by (simp add: huge_def)
  show ?thesis
    using big by (simp add: demo_defs model_defs sample_arith)
qed

section \<open>Quotas under sequential execution\<close>

lemma update_first_quota_nonneg:
  assumes "list_all (\<lambda>r. 0 \<le> remaining_quota r) xs"
    and "update_first (\<lambda>r. tier_id r = rid \<and> remaining_quota r > 0)
           (\<lambda>r. r\<lparr>remaining_quota := remaining_quota r - 1\<rparr>) xs = Some ys"
  shows "list_all (\<lambda>r. 0 \<le> remaining_quota r) ys"
  using assms by (induction xs arbitrary: ys) (auto split: if_splits option.splits)

lemma update_reward_quota_nonneg:
  assumes "quotas_nonneg s"
  shows "quotas_nonneg (snd (update_reward_quota e s rid 1))"
proof (cases "RewardsFile \<in> readable e")
  case True
  then show ?thesis
    using assms update_first_quota_nonneg [of "rewards_file s" rid]
    by (auto simp: update_reward_quota_def quotas_nonneg_def load_data_def save_data_def
          split: option.splits write_result.splits)
next
  case False
  then show ?thesis
    using assms
    by (auto simp: update_reward_quota_def quotas_nonneg_def load_data_def save_data_def
          split: option.splits write_result.splits)
qed

lemma accept_pledge_rewards:
  "rewards_file (snd (accept_pledge e s uid pid amt rid)) = rewards_file s \<or>
   rewards_file (snd (accept_pledge e s uid pid amt rid)) =
     rewards_file (snd (update_reward_quota e s (the rid) 1))"
proof (cases "update_project_amount e (save_pledge e s uid pid amt rid) pid amt")
  case (Inl x)
  then show ?thesis by (simp add: accept_pledge_def Let_def save_pledge_frame)
next
  case (Inr r)
  from update_project_amount_frame(1) [OF Inr]
  have rw: "rewards_file (snd r) = rewards_file s" by (simp add: save_pledge_frame)
  from Inr rw update_reward_quota_rewards_cong [OF rw, of e "the rid" 1]
  show ?thesis by (simp add: accept_pledge_def Let_def)
qed

lemma create_pledge_body_rewards:
  "rewards_file (snd (create_pledge_body e s uid pid amt rid)) = rewards_file s \<or>
   rewards_file (snd (create_pledge_body e s uid pid amt rid)) =
     rewards_file (snd (update_reward_quota e s (the rid) 1))"
  using accept_pledge_rewards [of e s uid pid amt rid]
  by (auto simp: create_pledge_body_def returned_def reject_pledge_frame
        split: sum.split option.split)

lemma create_pledge_rewards:
  "rewards_file (snd (create_pledge e s uid pid amt rid)) = rewards_file s \<or>
   rewards_file (snd (create_pledge e s uid pid amt rid)) =
     rewards_file (snd (update_reward_quota e s (the rid) 1))"
proof -
  have "rewards_file (snd (create_pledge e s uid pid amt rid)) =
          rewards_file (snd (create_pledge_body e s uid pid amt rid))"
    by (simp add: create_pledge_def reject_pledge_frame split: prod.split sum.split)
  then show ?thesis using create_pledge_body_rewards [of e s uid pid amt rid] by simp
qed

lemma create_pledge_quotas_nonneg:
  assumes "quotas_nonneg s"
  shows "quotas_nonneg (snd (create_pledge e s uid pid amt rid))"
  using create_pledge_rewards [of e s uid pid amt rid] assms
    update_reward_quota_nonneg [OF assms, of e "the rid"]
  by (auto simp: quotas_nonneg_def)

lemma op_step_quotas_nonneg:
  assumes "op_step s s'" "quotas_nonneg s"
  shows "quotas_nonneg s'"
  using assms
proof cases
  case (pledge_step e uid pid amt rid)
  then show ?thesis using assms(2) by (simp add: create_pledge_quotas_nonneg)
next
  case (quota_step e rid)
  then show ?thesis using assms(2) by (simp add: update_reward_quota_nonneg)
next
  case (amount_step e pid amt r)
  then show ?thesis using assms(2) by (simp add: quotas_nonneg_def update_project_amount_frame)
qed

lemma reachable_quotas_nonneg:
  assumes "rtranclp op_step s s'" "quotas_nonneg s"
  shows "quotas_nonneg s'"
  using assms by (induction rule: rtranclp_induct) (auto intro: op_step_quotas_nonneg)

lemma sold_out_tier_not_selectable:
  assumes "truthy rid"
    and "find (\<lambda>r. tier_id r = the rid) (get_reward_tiers e s pid) = Some t"
    and "remaining_quota t \<le> 0"
  shows "\<exists>why. fst (create_pledge e s uid pid amt rid) = Failure why"
  using assms
  by (auto simp: create_pledge_def create_pledge_body_def returned_def reject_pledge_fst
        split: option.split sum.split)

text \<open>
  Claim C5 says that no operation, a direct call of the quota hook included, drives a
  quota below 0. With the default decrement of 1 the quotas stay non-negative along every
  sequence of operations (\<open>reachable_quotas_nonneg\<close>), and a tier without quota cannot be
  pledged for (\<open>sold_out_tier_not_selectable\<close>). But the hook
  \<^verbatim>\<open>update_reward_quota(reward_id, decrease_by)\<close> tests only that the quota is positive
  before it subtracts \<open>decrease_by\<close>: on a tier with one unit left a direct call with
  \<open>decrease_by = 2\<close> returns \<^verbatim>\<open>True\<close> and stores -1.
\<close>

theorem update_reward_quota_overdraws:
  "quotas_nonneg (seed_store\<lparr>rewards_file := [standard_package\<lparr>remaining_quota := 1\<rparr>]\<rparr>) \<and>
   update_reward_quota healthy_env
     (seed_store\<lparr>rewards_file := [standard_package\<lparr>remaining_quota := 1\<rparr>]\<rparr>) ''reward_2'' 2 =
     (True, seed_store\<lparr>rewards_file := [standard_package\<lparr>remaining_quota := - 1\<rparr>]\<rparr>) \<and>
   \<not> quotas_nonneg (snd (update_reward_quota healthy_env
     (seed_store\<lparr>rewards_file := [standard_package\<lparr>remaining_quota := 1\<rparr>]\<rparr>) ''reward_2'' 2))"
  by (simp add: demo_defs model_defs quotas_nonneg_def)

section \<open>The recent-activity window\<close>

lemma recent_iff:
  "timedelta_days a b \<le> 7 \<longleftrightarrow> a - b < 8 * seconds_per_day"
proof -
  define q r where "q = (a - b) div 86400" and "r = (a - b) mod 86400"
  have "a - b = 86400 * q + r" and "0 \<le> r" and "r < 86400"
    by (simp_all add: q_def r_def)
  then have "q \<le> 7 \<longleftrightarrow> a - b < 8 * 86400"
    by linarith
  then show ?thesis
    by (simp add: timedelta_days_def seconds_per_day_def q_def)
qed

lemma sample_statistics_arith:
  "py_div (PyInt 3) (PyInt 3) = Inr (PyFloat 1)"
  "py_mul (PyFloat 1) (PyInt 100) = Inr (PyFloat 100)"
  "py_sum [PyFloat 500, PyFloat 500, PyFloat 500] = Inr (PyFloat 1500)"
  "py_div (PyFloat 1500) (PyInt 3) = Inr (PyFloat 500)"
  by (simp_all add: py_sum_def float_arith overflow_bound_def)

lemma sample_round2:
  "py_round2 (PyFloat 100) = PyFloat 100" "py_round2 (PyFloat 500) = PyFloat 500"
  by code_simp+

text \<open>
  Claim C6 says that a record exactly 7 days old counts as recent and an older one does
  not. The test \<^verbatim>\<open>(current_date - pledge_date).days <= 7\<close> holds exactly when the record
  is less than eight days old (\<open>recent_iff\<close>). Of three pledges aged exactly 7 days, 8 days
  less one second, and exactly 8 days, \<^verbatim>\<open>get_pledge_statistics\<close> counts the first two: the
  second is older than 7 days and is counted.
\<close>

theorem recent_window_counts_eighth_day:
  "get_pledge_statistics (healthy_env\<lparr>now := 8 * 86400\<rparr>)
     (seed_store\<lparr>pledges_file :=
        [simple_pledge 1 ''user_0002'' (PyFloat 500) 86400,
         simple_pledge 2 ''user_0003'' (PyFloat 500) 1,
         simple_pledge 3 ''user_0004'' (PyFloat 500) 0]\<rparr>) =
   Inr \<lparr>total_successful_pledges = 3, total_rejected_pledges = 0, total_pledge_attempts = 3,
    success_rate_percentage = PyFloat 100, total_pledged_amount = PyFloat 1500,
    average_pledge_amount = PyFloat 500,
    recent_successful_pledges = 2, recent_rejected_pledges = 0,
    top_rejection_reasons = []\<rparr>"
  by (simp add: get_pledge_statistics_def timedelta_days_def rejection_reasons_def py_prefix_def
        demo_defs load_data_def seconds_per_day_def then_do_def sample_statistics_arith
        sample_round2)

section \<open>Top backers: grouping, order and truncation\<close>

lemma dict_get_update:
  "dict_get (AList.update k v d) u dflt = (if u = k then v else dict_get d u dflt)"
  by (simp add: dict_get_def update_conv')

lemma amounts_of_Cons:
  "amounts_of u (p # ps) = (if user_id p = u then amount p # amounts_of u ps else amounts_of u ps)"
  by (simp add: amounts_of_def)

lemma user_totals_from_sums:
  assumes "user_totals_from d ps = Inr d'"
  shows "py_sum_from (dict_get d u (PyInt 0)) (amounts_of u ps) = Inr (dict_get d' u (PyInt 0))"
  using assms
proof (induction ps arbitrary: d)
  case Nil
  then show ?case by (simp add: amounts_of_def)
next
  case (Cons p ps)
  from Cons.prems obtain t where
    t: "py_add (dict_get d (user_id p) (PyInt 0)) (amount p) = Inr t"
    and rest: "user_totals_from (AList.update (user_id p) t d) ps = Inr d'"
    by (auto simp: then_do_Inr_iff)
  from Cons.IH [OF rest] t show ?case
    by (cases "user_id p = u") (auto simp: amounts_of_Cons dict_get_update then_do_def)
qed




lemma user_totals_raises:
  assumes "py_sum (amounts_of u ps) = Inl x"
  shows "\<exists>y. user_totals ps = Inl y"
proof (cases "user_totals ps")
  case (Inl y)
  then show ?thesis by simp
next
  case (Inr totals)
  then have "user_totals_from [] ps = Inr totals" by (simp add: user_totals_def)
  from user_totals_from_sums [OF this, of u] assms show ?thesis
    by (simp add: py_sum_def dict_get_def)
qed

lemma get_top_backers_raises:
  assumes "py_sum (amounts_of u (loaded_pledges e s)) = Inl x"
  shows "\<exists>y. get_top_backers e s limit = Inl y"
  using user_totals_raises [OF assms]
  by (auto simp: get_top_backers_def Let_def then_do_def)










end
